theory Spec2Isabelle
  imports Complex_Main "HOL-Library.Multiset" "HOL-Library.Sublist"
begin

section \<open>JavaScript values\<close>

text \<open>
  The dashboard works on whatever \<^verbatim>\<open>response.json()\<close> delivers, so the payload is
  modelled as an untyped JavaScript value. A number is an IEEE double: a finite value
  (over-approximated by the reals, which is exact for the comparisons with the literals
  40, 60 and 80 and for the counters, and which identifies \<^verbatim>\<open>-0\<close> with \<^verbatim>\<open>0\<close>), one of
  the two infinities, or NaN. An object is the association list of its own properties, the
  first binding of a key being the effective one. A string is the list of its characters,
  one per code unit.
\<close>

datatype jsnum = Fin real | PosInf | NegInf | NaN

datatype jsval =
    JUndefined
  | JNull
  | JBool bool
  | JNum jsnum
  | JStr string
  | JArr "jsval list"
  | JObj "(string \<times> jsval) list"

datatype js_error =
    TypeError
  | NetworkError
  | ApiError nat string
  | SyntaxError

text \<open>An evaluation that may throw: \<open>Inl\<close> the error thrown, \<open>Inr\<close> the value.\<close>

definition bindE :: "js_error + 'a \<Rightarrow> ('a \<Rightarrow> js_error + 'b) \<Rightarrow> js_error + 'b" where
  "bindE m f = (case m of Inl e \<Rightarrow> Inl e | Inr v \<Rightarrow> f v)"

text \<open>Evaluations in order, up to the first that throws.\<close>

fun sequenceE :: "(js_error + 'a) list \<Rightarrow> js_error + 'a list" where
  "sequenceE [] = Inr []"
| "sequenceE (Inl e # rs) = Inl e"
| "sequenceE (Inr x # rs) = (case sequenceE rs of Inl e \<Rightarrow> Inl e | Inr xs \<Rightarrow> Inr (x # xs))"

text \<open>
  Four answers of the engine are left open: how a finite number that is not an integer
  below \<^verbatim>\<open>2^53\<close> in size is printed, how a string is read as a number, how a string
  with a character outside ASCII is lower-cased, and how a member of
  \<^verbatim>\<open>Object.prototype\<close> is printed. Every theorem below holds for all choices of them.
\<close>

record engine =
  fmt_real :: "real \<Rightarrow> string"
  parse_number :: "string \<Rightarrow> jsnum"
  lower_unicode :: "string \<Rightarrow> string"
  builtin_text :: "string \<Rightarrow> string"

subsection \<open>Truthiness, comparison, rounding\<close>

fun num_truthy :: "jsnum \<Rightarrow> bool" where
  "num_truthy (Fin x) = (x \<noteq> 0)"
| "num_truthy NaN = False"
| "num_truthy PosInf = True"
| "num_truthy NegInf = True"

fun truthy :: "jsval \<Rightarrow> bool" where
  "truthy JUndefined = False"
| "truthy JNull = False"
| "truthy (JBool b) = b"
| "truthy (JNum n) = num_truthy n"
| "truthy (JStr s) = (s \<noteq> [])"
| "truthy (JArr xs) = True"
| "truthy (JObj kvs) = True"

text \<open>\<^verbatim>\<open>a || b\<close>\<close>

definition por :: "jsval \<Rightarrow> jsval \<Rightarrow> jsval" where
  "por a b = (if truthy a then a else b)"

text \<open>\<^verbatim>\<open>n >= c\<close> and \<^verbatim>\<open>n > c\<close> for a number \<open>n\<close> and a finite literal \<open>c\<close>.\<close>

fun num_ge :: "jsnum \<Rightarrow> real \<Rightarrow> bool" where
  "num_ge (Fin x) c = (c \<le> x)"
| "num_ge PosInf c = True"
| "num_ge NegInf c = False"
| "num_ge NaN c = False"

fun num_gt :: "jsnum \<Rightarrow> real \<Rightarrow> bool" where
  "num_gt (Fin x) c = (c < x)"
| "num_gt PosInf c = True"
| "num_gt NegInf c = False"
| "num_gt NaN c = False"

text \<open>\<^verbatim>\<open>Math.round\<close>: to the nearest integer, halves towards plus infinity.\<close>

fun math_round :: "jsnum \<Rightarrow> jsnum" where
  "math_round (Fin x) = Fin (of_int \<lfloor>x + 1 / 2\<rfloor>)"
| "math_round n = n"

text \<open>\<^verbatim>\<open>n + 1\<close>, as the postfix increment computes it.\<close>

fun num_succ :: "jsnum \<Rightarrow> jsnum" where
  "num_succ (Fin x) = Fin (x + 1)"
| "num_succ n = n"

subsection \<open>Conversions to string and to number\<close>

function nat_to_string :: "nat \<Rightarrow> string" where
  "nat_to_string n =
     (if n < 10 then [''0123456789'' ! n]
      else nat_to_string (n div 10) @ [''0123456789'' ! (n mod 10)])"
  by pat_completeness auto
termination
  by (relation "measure id") auto

declare nat_to_string.simps [simp del]

definition NumberToString :: "engine \<Rightarrow> jsnum \<Rightarrow> string" where
  "NumberToString E n =
     (case n of
        NaN \<Rightarrow> ''NaN''
      | PosInf \<Rightarrow> ''Infinity''
      | NegInf \<Rightarrow> ''-Infinity''
      | Fin x \<Rightarrow>
          if x = of_int \<lfloor>x\<rfloor> \<and> \<bar>x\<bar> < 2 ^ 53
          then (if x < 0 then ''-'' @ nat_to_string (nat (- \<lfloor>x\<rfloor>))
                else nat_to_string (nat \<lfloor>x\<rfloor>))
          else fmt_real E x)"

fun join_with :: "string \<Rightarrow> string list \<Rightarrow> string" where
  "join_with sep [] = []"
| "join_with sep [s] = s"
| "join_with sep (s # t # ss) = s @ sep @ join_with sep (t # ss)"

text \<open>
  \<^verbatim>\<open>ToString\<close>, as a template literal and a property key apply it. An array prints as
  its elements joined by commas, \<^verbatim>\<open>null\<close> and \<^verbatim>\<open>undefined\<close> elements as the empty
  string. A plain object prints as \<^verbatim>\<open>[object Object]\<close>, unless it has a property
  \<^verbatim>\<open>toString\<close> of its own: a parsed value is never callable, the inherited
  \<^verbatim>\<open>valueOf\<close> answers the object itself, and the conversion throws a TypeError.
\<close>

fun ToString :: "engine \<Rightarrow> jsval \<Rightarrow> js_error + string" where
  "ToString E JUndefined = Inr ''undefined''"
| "ToString E JNull = Inr ''null''"
| "ToString E (JBool b) = Inr (if b then ''true'' else ''false'')"
| "ToString E (JNum n) = Inr (NumberToString E n)"
| "ToString E (JStr s) = Inr s"
| "ToString E (JArr xs) =
     (case sequenceE (map (\<lambda>x. if x = JUndefined \<or> x = JNull then Inr [] else ToString E x) xs) of
        Inl e \<Rightarrow> Inl e
      | Inr ss \<Rightarrow> Inr (join_with '','' ss))"
| "ToString E (JObj kvs) =
     (if map_of kvs ''toString'' = None then Inr ''[object Object]'' else Inl TypeError)"

text \<open>
  \<^verbatim>\<open>ToNumber\<close>, which the relational operators and \<^verbatim>\<open>Math.round\<close> apply: an object
  or an array goes by the string it prints as, and throws where that throws.
\<close>

fun ToNumber :: "engine \<Rightarrow> jsval \<Rightarrow> js_error + jsnum" where
  "ToNumber E JUndefined = Inr NaN"
| "ToNumber E JNull = Inr (Fin 0)"
| "ToNumber E (JBool b) = Inr (if b then Fin 1 else Fin 0)"
| "ToNumber E (JNum n) = Inr n"
| "ToNumber E (JStr s) = Inr (parse_number E s)"
| "ToNumber E (JArr xs) = bindE (ToString E (JArr xs)) (\<lambda>s. Inr (parse_number E s))"
| "ToNumber E (JObj kvs) = bindE (ToString E (JObj kvs)) (\<lambda>s. Inr (parse_number E s))"

text \<open>\<^verbatim>\<open>v >= c\<close> and \<^verbatim>\<open>v > c\<close> for a value \<open>v\<close> and a finite literal \<open>c\<close>.\<close>

definition js_ge :: "engine \<Rightarrow> jsval \<Rightarrow> real \<Rightarrow> js_error + bool" where
  "js_ge E v c = bindE (ToNumber E v) (\<lambda>n. Inr (num_ge n c))"

definition js_gt :: "engine \<Rightarrow> jsval \<Rightarrow> real \<Rightarrow> js_error + bool" where
  "js_gt E v c = bindE (ToNumber E v) (\<lambda>n. Inr (num_gt n c))"

text \<open>\<^verbatim>\<open>Math.round(v)\<close>\<close>

definition Math_round :: "engine \<Rightarrow> jsval \<Rightarrow> js_error + jsnum" where
  "Math_round E v = bindE (ToNumber E v) (\<lambda>n. Inr (math_round n))"

text \<open>
  \<^verbatim>\<open>String.prototype.toLowerCase\<close>: on a string of ASCII characters, the letters A to Z
  go to a to z and every other character stays; any other string is the engine's.
\<close>

definition lower_char :: "char \<Rightarrow> char" where
  "lower_char c =
     (case map_of (zip ''ABCDEFGHIJKLMNOPQRSTUVWXYZ'' ''abcdefghijklmnopqrstuvwxyz'') c of
        Some d \<Rightarrow> d
      | None \<Rightarrow> c)"

definition is_ascii :: "char \<Rightarrow> bool" where
  "is_ascii c = (\<not> digit7 c)"

definition toLowerCase :: "engine \<Rightarrow> string \<Rightarrow> string" where
  "toLowerCase E s = (if list_all is_ascii s then map lower_char s else lower_unicode E s)"

section \<open>Score tiers\<close>

text \<open>\<^verbatim>\<open>getRiskLevel(score)\<close>, \<^verbatim>\<open>getScoreColor(score)\<close>, \<^verbatim>\<open>getScoreGradient(score)\<close>\<close>

definition getRiskLevel :: "engine \<Rightarrow> jsval \<Rightarrow> js_error + string" where
  "getRiskLevel E score =
     bindE (js_ge E score 80) (\<lambda>b80. if b80 then Inr ''Low'' else
     bindE (js_ge E score 60) (\<lambda>b60. if b60 then Inr ''Medium'' else
     bindE (js_ge E score 40) (\<lambda>b40. if b40 then Inr ''High'' else
     Inr ''Critical'')))"

definition getScoreColor :: "engine \<Rightarrow> jsval \<Rightarrow> js_error + string" where
  "getScoreColor E score =
     bindE (js_ge E score 80) (\<lambda>b80. if b80 then Inr ''#2D8B47'' else
     bindE (js_ge E score 60) (\<lambda>b60. if b60 then Inr ''#FFC107'' else
     bindE (js_ge E score 40) (\<lambda>b40. if b40 then Inr ''#FF9800'' else
     Inr ''#D32F2F'')))"

definition getScoreGradient :: "engine \<Rightarrow> jsval \<Rightarrow> js_error + string" where
  "getScoreGradient E score =
     bindE (js_ge E score 80) (\<lambda>b80. if b80 then Inr ''linear-gradient(90deg, #2D8B47, #4CAF50)'' else
     bindE (js_ge E score 60) (\<lambda>b60. if b60 then Inr ''linear-gradient(90deg, #FFC107, #FF9800)'' else
     bindE (js_ge E score 40) (\<lambda>b40. if b40 then Inr ''linear-gradient(90deg, #FF9800, #FF6B6B)'' else
     Inr ''linear-gradient(90deg, #D32F2F, #F44336)'')))"

section \<open>Property access\<close>

text \<open>
  Reading a property of \<^verbatim>\<open>undefined\<close> or \<^verbatim>\<open>null\<close> throws a TypeError. Every other
  value answers: an object with its own property, an array or a string with its
  \<^verbatim>\<open>length\<close>, and \<^verbatim>\<open>undefined\<close> otherwise. (None of the names the dashboard reads is
  an index or a member of a built-in prototype.)
\<close>

definition nullish :: "jsval \<Rightarrow> bool" where
  "nullish v = (v = JUndefined \<or> v = JNull)"

fun own_prop :: "jsval \<Rightarrow> string \<Rightarrow> jsval" where
  "own_prop (JObj kvs) k = (case map_of kvs k of Some v \<Rightarrow> v | None \<Rightarrow> JUndefined)"
| "own_prop (JArr xs) k = (if k = ''length'' then JNum (Fin (real (length xs))) else JUndefined)"
| "own_prop (JStr s) k = (if k = ''length'' then JNum (Fin (real (length s))) else JUndefined)"
| "own_prop v k = JUndefined"

text \<open>\<^verbatim>\<open>v.k\<close>\<close>

definition get_prop :: "jsval \<Rightarrow> string \<Rightarrow> js_error + jsval" where
  "get_prop v k = (if nullish v then Inl TypeError else Inr (own_prop v k))"

text \<open>\<^verbatim>\<open>v?.k\<close>\<close>

definition opt_chain :: "jsval \<Rightarrow> string \<Rightarrow> jsval" where
  "opt_chain v k = (if nullish v then JUndefined else own_prop v k)"

text \<open>
  \<^verbatim>\<open>[...v]\<close>: an array spreads to its elements and a string to its characters; any
  other value is not iterable.
\<close>

fun spread :: "jsval \<Rightarrow> js_error + jsval list" where
  "spread (JArr xs) = Inr xs"
| "spread (JStr s) = Inr (map (\<lambda>c. JStr [c]) s)"
| "spread v = Inl TypeError"

text \<open>
  \<^verbatim>\<open>xs.forEach(callback)\<close> over the elements of an array, the callback updating the
  variables it closes over (the state \<open>s\<close>); a throw in the callback ends the loop.
\<close>

fun forEach :: "(jsval \<Rightarrow> 's \<Rightarrow> js_error + 's) \<Rightarrow> jsval list \<Rightarrow> 's \<Rightarrow> js_error + 's" where
  "forEach f [] s = Inr s"
| "forEach f (x # xs) s = (case f x s of Inl e \<Rightarrow> Inl e | Inr s' \<Rightarrow> forEach f xs s')"

text \<open>\<^verbatim>\<open>v.forEach(callback)\<close> on a value: only an array has the method.\<close>

fun call_forEach :: "jsval \<Rightarrow> (jsval \<Rightarrow> 's \<Rightarrow> js_error + 's) \<Rightarrow> 's \<Rightarrow> js_error + 's" where
  "call_forEach (JArr xs) f s = forEach f xs s"
| "call_forEach v f s = Inl TypeError"

section \<open>Aggregation over the payload\<close>

text \<open>\<^verbatim>\<open>dashboardData.ec2?.assessments || []\<close> (and the same for \<^verbatim>\<open>s3\<close>)\<close>

definition assessments_or_empty :: "jsval \<Rightarrow> string \<Rightarrow> js_error + jsval" where
  "assessments_or_empty dashboardData category =
     bindE (get_prop dashboardData category)
       (\<lambda>c. Inr (por (opt_chain c ''assessments'') (JArr [])))"

text \<open>
  The array literal of \<^verbatim>\<open>countCriticalIssues\<close> and \<^verbatim>\<open>updateRiskDistributionChart\<close>:
  the EC2 assessments spread first, the S3 assessments after them.
\<close>

definition all_assessments :: "jsval \<Rightarrow> js_error + jsval list" where
  "all_assessments dashboardData =
     bindE (assessments_or_empty dashboardData ''ec2'') (\<lambda>e.
     bindE (spread e) (\<lambda>es.
     bindE (assessments_or_empty dashboardData ''s3'') (\<lambda>s.
     bindE (spread s) (\<lambda>ss.
     Inr (es @ ss)))))"

subsection \<open>countCriticalIssues\<close>

definition critical_callback :: "jsval \<Rightarrow> nat \<Rightarrow> js_error + nat" where
  "critical_callback assessment cnt =
     bindE (get_prop assessment ''risk_level'')
       (\<lambda>r. Inr (if r = JStr ''Critical'' then cnt + 1 else cnt))"

definition countCriticalIssues :: "jsval \<Rightarrow> js_error + nat" where
  "countCriticalIssues dashboardData =
     bindE (all_assessments dashboardData) (\<lambda>assessments.
     forEach critical_callback assessments 0)"

subsection \<open>updateEC2BreakdownChart, updateS3BreakdownChart\<close>

text \<open>
  Both functions are modelled up to the counts they hand to the chart; the chart object
  itself is outside the model.
\<close>

record ec2_breakdown =
  encrypted :: nat
  notEncrypted :: nat
  publicAccess :: nat
  restricted :: nat

record s3_breakdown =
  s3_encrypted :: nat
  s3_notEncrypted :: nat
  publicAccessAllowed :: nat
  secured :: nat

definition ec2_callback :: "jsval \<Rightarrow> ec2_breakdown \<Rightarrow> js_error + ec2_breakdown" where
  "ec2_callback assessment breakdown =
     bindE (get_prop assessment ''ebs_encryption_enabled'') (\<lambda>enc.
     let b1 = (if truthy enc then breakdown\<lparr>encrypted := encrypted breakdown + 1\<rparr>
               else breakdown\<lparr>notEncrypted := notEncrypted breakdown + 1\<rparr>) in
     bindE (get_prop assessment ''has_public_ip'') (\<lambda>pub.
     Inr (if truthy pub then b1\<lparr>publicAccess := publicAccess b1 + 1\<rparr>
          else b1\<lparr>restricted := restricted b1 + 1\<rparr>)))"

definition updateEC2BreakdownChart :: "jsval \<Rightarrow> js_error + ec2_breakdown" where
  "updateEC2BreakdownChart dashboardData =
     bindE (assessments_or_empty dashboardData ''ec2'') (\<lambda>assessments.
     call_forEach assessments ec2_callback
       \<lparr>encrypted = 0, notEncrypted = 0, publicAccess = 0, restricted = 0\<rparr>)"

definition s3_callback :: "jsval \<Rightarrow> s3_breakdown \<Rightarrow> js_error + s3_breakdown" where
  "s3_callback assessment breakdown =
     bindE (get_prop assessment ''encryption_enabled'') (\<lambda>enc.
     let b1 = (if truthy enc then breakdown\<lparr>s3_encrypted := s3_encrypted breakdown + 1\<rparr>
               else breakdown\<lparr>s3_notEncrypted := s3_notEncrypted breakdown + 1\<rparr>) in
     bindE (get_prop assessment ''public_access_block_disabled'') (\<lambda>pab.
     Inr (if \<not> truthy pab then b1\<lparr>secured := secured b1 + 1\<rparr>
          else b1\<lparr>publicAccessAllowed := publicAccessAllowed b1 + 1\<rparr>)))"

definition updateS3BreakdownChart :: "jsval \<Rightarrow> js_error + s3_breakdown" where
  "updateS3BreakdownChart dashboardData =
     bindE (assessments_or_empty dashboardData ''s3'') (\<lambda>assessments.
     call_forEach assessments s3_callback
       \<lparr>s3_encrypted = 0, s3_notEncrypted = 0, publicAccessAllowed = 0, secured = 0\<rparr>)"

subsection \<open>updateRiskDistributionChart\<close>

text \<open>
  \<^verbatim>\<open>riskCounts\<close> is an object literal: the map of its own properties, under
  \<^verbatim>\<open>Object.prototype\<close>. The \<^verbatim>\<open>in\<close> operator also finds the members of the prototype.
  Incrementing such a member reads a function (NaN as a number) and stores NaN as an own
  property; for \<^verbatim>\<open>__proto__\<close> the store goes to the prototype's setter, which ignores
  a number.
\<close>

type_synonym risk_counts = "string \<Rightarrow> jsnum option"

definition object_prototype_keys :: "string list" where
  "object_prototype_keys =
     [''constructor'', ''__defineGetter__'', ''__defineSetter__'', ''hasOwnProperty'',
      ''__lookupGetter__'', ''__lookupSetter__'', ''isPrototypeOf'',
      ''propertyIsEnumerable'', ''toString'', ''valueOf'', ''__proto__'',
      ''toLocaleString'']"

definition initial_riskCounts :: risk_counts where
  "initial_riskCounts =
     [''Low'' \<mapsto> Fin 0, ''Medium'' \<mapsto> Fin 0, ''High'' \<mapsto> Fin 0, ''Critical'' \<mapsto> Fin 0]"

text \<open>\<^verbatim>\<open>key in riskCounts\<close>\<close>

definition has_property :: "risk_counts \<Rightarrow> string \<Rightarrow> bool" where
  "has_property riskCounts key = (riskCounts key \<noteq> None \<or> key \<in> set object_prototype_keys)"

text \<open>\<^verbatim>\<open>riskCounts[key]++\<close>\<close>

definition increment :: "risk_counts \<Rightarrow> string \<Rightarrow> risk_counts" where
  "increment riskCounts key =
     (case riskCounts key of
        Some n \<Rightarrow> riskCounts(key \<mapsto> num_succ n)
      | None \<Rightarrow> if key = ''__proto__'' then riskCounts else riskCounts(key \<mapsto> NaN))"

definition risk_callback :: "engine \<Rightarrow> jsval \<Rightarrow> risk_counts \<Rightarrow> js_error + risk_counts" where
  "risk_callback E assessment riskCounts =
     bindE (get_prop assessment ''risk_level'') (\<lambda>r.
     let risk = por r (JStr ''Unknown'') in
     bindE (ToString E risk) (\<lambda>key.
     Inr (if has_property riskCounts key then increment riskCounts key else riskCounts)))"

text \<open>\<^verbatim>\<open>riskCounts.Low\<close> and its like, as the chart's data array reads them.\<close>

definition read_count :: "risk_counts \<Rightarrow> string \<Rightarrow> jsval" where
  "read_count riskCounts key = (case riskCounts key of Some n \<Rightarrow> JNum n | None \<Rightarrow> JUndefined)"

definition updateRiskDistributionChart :: "engine \<Rightarrow> jsval \<Rightarrow> js_error + jsval list" where
  "updateRiskDistributionChart E dashboardData =
     bindE (all_assessments dashboardData) (\<lambda>assessments.
     bindE (forEach (risk_callback E) assessments initial_riskCounts) (\<lambda>riskCounts.
     Inr [read_count riskCounts ''Low'', read_count riskCounts ''Medium'',
          read_count riskCounts ''High'', read_count riskCounts ''Critical'']))"

section \<open>KPI cards\<close>

text \<open>
  The page is a sink: a write is the element's id, the property assigned and the value.
  The elements the script names are taken to exist.
\<close>

type_synonym dom_write = "string \<times> string \<times> jsval"

text \<open>
  A run of statements that write to the page: the writes made, in order, and the error
  thrown, if any. A statement that throws ends the run with the writes made before it.
\<close>

type_synonym dom_run = "dom_write list \<times> js_error option"

definition then_run :: "dom_run \<Rightarrow> dom_run \<Rightarrow> dom_run" where
  "then_run a b = (case snd a of Some e \<Rightarrow> a | None \<Rightarrow> (fst a @ fst b, snd b))"

definition eval_then :: "js_error + 'a \<Rightarrow> ('a \<Rightarrow> dom_run) \<Rightarrow> dom_run" where
  "eval_then m f = (case m of Inl e \<Rightarrow> ([], Some e) | Inr v \<Rightarrow> f v)"

text \<open>\<^verbatim>\<open>document.getElementById(element).property = rhs\<close>\<close>

definition assign :: "string \<Rightarrow> string \<Rightarrow> js_error + jsval \<Rightarrow> dom_run" where
  "assign element property rhs = eval_then rhs (\<lambda>v. ([(element, property, v)], None))"

text \<open>The template literal that is one hole followed by a fixed text.\<close>

definition template_suffix :: "engine \<Rightarrow> jsval \<Rightarrow> string \<Rightarrow> js_error + jsval" where
  "template_suffix E v fixed = bindE (ToString E v) (\<lambda>s. Inr (JStr (s @ fixed)))"

definition setScoreCard :: "engine \<Rightarrow> string \<Rightarrow> jsval \<Rightarrow> string \<Rightarrow> dom_run" where
  "setScoreCard E cardId score riskLevel =
     then_run (assign (cardId @ ''Score'') ''textContent''
                 (bindE (Math_round E score) (\<lambda>n. Inr (JNum n))))
    (then_run (assign (cardId @ ''ScoreFill'') ''style.width'' (template_suffix E score ''%''))
       (if cardId = ''overall''
        then ([(''overallRiskLevel'', ''textContent'', JStr (''Risk Level: '' @ riskLevel)),
               (''overallRiskLevel'', ''className'',
                  JStr (''risk-level '' @ toLowerCase E riskLevel))], None)
        else ([], None)))"

text \<open>
  \<^verbatim>\<open>updateKPICards\<close> returns the writes it made and the error it threw, if any.
  \<^verbatim>\<open>summary.overall\<close> is a plain property read of \<^verbatim>\<open>summary\<close>; only the step from
  \<^verbatim>\<open>overall\<close>, \<^verbatim>\<open>ec2\<close> and \<^verbatim>\<open>s3\<close> to their fields is an optional chain. The
  arguments of \<^verbatim>\<open>setScoreCard\<close> are evaluated before its body runs.
\<close>

definition updateKPICards :: "engine \<Rightarrow> jsval \<Rightarrow> dom_run" where
  "updateKPICards E dashboardData =
     eval_then (get_prop dashboardData ''summary'') (\<lambda>summary.
     eval_then (get_prop summary ''overall'') (\<lambda>overall.
     let overallScore = por (opt_chain overall ''average_score'') (JNum (Fin 0));
         ec2Score = por (opt_chain (own_prop summary ''ec2'') ''average_score'') (JNum (Fin 0));
         ec2Count = por (opt_chain (own_prop summary ''ec2'') ''count'') (JNum (Fin 0));
         s3Score = por (opt_chain (own_prop summary ''s3'') ''average_score'') (JNum (Fin 0));
         s3Count = por (opt_chain (own_prop summary ''s3'') ''count'') (JNum (Fin 0)) in
     then_run (eval_then (Math_round E overallScore) (\<lambda>rounded.
               eval_then (getRiskLevel E overallScore) (\<lambda>riskLevel.
               setScoreCard E ''overall'' (JNum rounded) riskLevel)))
    (then_run (assign ''ec2Score'' ''textContent''
                 (bindE (Math_round E ec2Score) (\<lambda>n. Inr (JNum n))))
    (then_run (assign ''ec2ScoreFill'' ''style.width'' (template_suffix E ec2Score ''%''))
    (then_run (assign ''ec2Count'' ''textContent'' (template_suffix E ec2Count '' instances''))
    (then_run (assign ''s3Score'' ''textContent''
                 (bindE (Math_round E s3Score) (\<lambda>n. Inr (JNum n))))
    (then_run (assign ''s3ScoreFill'' ''style.width'' (template_suffix E s3Score ''%''))
    (then_run (assign ''s3Count'' ''textContent'' (template_suffix E s3Count '' buckets''))
       (assign ''criticalCount'' ''textContent''
          (bindE (countCriticalIssues dashboardData) (\<lambda>criticalCount.
             Inr (JNum (Fin (real criticalCount))))))))))))))"

section \<open>Cards\<close>

text \<open>
  A card is a template literal. Its model is the record of the values that fill the
  holes of the template, in the order of the template; the fixed markup around them is
  not repeated. A hole that is either a fragment of markup or the empty string is an
  option: the text inside the fragment, or \<open>None\<close>.
\<close>

text \<open>\<^verbatim>\<open>v.toLowerCase()\<close>: only a string has the method.\<close>

fun call_toLowerCase :: "engine \<Rightarrow> jsval \<Rightarrow> js_error + string" where
  "call_toLowerCase E (JStr s) = Inr (toLowerCase E s)"
| "call_toLowerCase E v = Inl TypeError"

subsection \<open>createRecommendationCard\<close>

record recommendation_card =
  card_class :: string
  badge_class :: string
  badge_text :: string
  title_text :: string
  description_text :: string
  issue_text :: string
  type_text :: "string option"

definition createRecommendationCard :: "engine \<Rightarrow> jsval \<Rightarrow> js_error + recommendation_card" where
  "createRecommendationCard E recommendation =
     bindE (get_prop recommendation ''priority'') (\<lambda>p.
     let priority = por p (JStr ''MEDIUM'');
         title = por (own_prop recommendation ''title'') (JStr ''Security Recommendation'');
         description = por (own_prop recommendation ''description'')
                         (JStr ''Review security configuration'');
         issue = por (own_prop recommendation ''issue'') (JStr ''General security concern'');
         resource_type = own_prop recommendation ''resource_type'' in
     bindE (call_toLowerCase E priority) (\<lambda>c1.
     bindE (call_toLowerCase E priority) (\<lambda>c2.
     bindE (ToString E priority) (\<lambda>badge.
     bindE (ToString E title) (\<lambda>t.
     bindE (ToString E description) (\<lambda>d.
     bindE (ToString E issue) (\<lambda>i.
     bindE (if truthy resource_type
            then bindE (ToString E resource_type) (\<lambda>s. Inr (Some s))
            else Inr None) (\<lambda>ty.
     Inr \<lparr>card_class = c1, badge_class = c2, badge_text = badge, title_text = t,
          description_text = d, issue_text = i, type_text = ty\<rparr>))))))))"

subsection \<open>createAssessmentCard\<close>

text \<open>
  \<^verbatim>\<open>colors[riskLevel] || '#B0B8C1'\<close>: the key is the string the level converts to; the
  lookup also finds the members of \<^verbatim>\<open>Object.prototype\<close>, which are truthy, and how
  such a member prints in the template is the engine's.
\<close>

definition getRiskColor :: "engine \<Rightarrow> jsval \<Rightarrow> js_error + string" where
  "getRiskColor E riskLevel =
     bindE (ToString E riskLevel) (\<lambda>key.
     Inr (case map_of [(''Low'', ''#2D8B47''), (''Medium'', ''#FFC107''),
                       (''High'', ''#FF9800''), (''Critical'', ''#D32F2F'')] key of
            Some c \<Rightarrow> c
          | None \<Rightarrow> if key \<in> set object_prototype_keys then builtin_text E key else ''#B0B8C1''))"

text \<open>
  The issues block: the list items of the first three issues, joined, and the marker
  after them (empty when there is none); or the paragraph that says that no issue was
  found.
\<close>

datatype issues_block = NoIssues | IssuesList string string

definition issue_item :: "engine \<Rightarrow> jsval \<Rightarrow> js_error + string" where
  "issue_item E issue = bindE (ToString E issue) (\<lambda>s. Inr (''<li>'' @ s @ ''</li>''))"

definition more_marker :: "engine \<Rightarrow> nat \<Rightarrow> string" where
  "more_marker E len =
     (if 3 < len
      then ''<li>... and '' @ NumberToString E (Fin (real len - 3)) @ '' more issues</li>''
      else [])"

text \<open>
  \<^verbatim>\<open>issues.length > 0\<close> is asked of any value; \<^verbatim>\<open>issues.slice(0, 3).map(...)\<close> then
  succeeds on an array only (a string slices to a string, which has no \<^verbatim>\<open>map\<close>), and
  throws where an issue does not convert to a string.
\<close>

definition render_issues :: "engine \<Rightarrow> jsval \<Rightarrow> js_error + issues_block" where
  "render_issues E issues =
     bindE (js_gt E (own_prop issues ''length'') 0) (\<lambda>some.
     if some
     then (case issues of
             JArr xs \<Rightarrow>
               bindE (sequenceE (map (issue_item E) (take 3 xs))) (\<lambda>items.
               Inr (IssuesList (concat items) (more_marker E (length xs))))
           | _ \<Rightarrow> Inl TypeError)
     else Inr NoIssues)"

record assessment_card =
  name_text :: string
  resource_label :: string
  state_badge :: "string option"
  score_color :: string
  score_text :: jsnum
  fill_width :: string
  fill_gradient :: string
  risk_color :: string
  risk_text :: string
  issues_view :: issues_block

definition createAssessmentCard :: "engine \<Rightarrow> jsval \<Rightarrow> string \<Rightarrow> js_error + assessment_card" where
  "createAssessmentCard E assessment ty =
     bindE (get_prop assessment ''security_score'') (\<lambda>sc.
     let score = por sc (JNum (Fin 0));
         riskLevel = por (own_prop assessment ''risk_level'') (JStr ''Unknown'');
         name = por (own_prop assessment ''instance_name'')
                  (por (own_prop assessment ''bucket_name'') (JStr ''Unknown''));
         state = por (own_prop assessment ''state'') (JStr ''unknown'');
         issues = por (own_prop assessment ''issues'') (JArr []) in
     bindE (ToString E name) (\<lambda>name_s.
     bindE (if ty = ''EC2'' then bindE (ToString E state) (\<lambda>s. Inr (Some s)) else Inr None)
       (\<lambda>badge.
     bindE (getScoreColor E score) (\<lambda>color.
     bindE (Math_round E score) (\<lambda>rounded.
     bindE (ToString E score) (\<lambda>width.
     bindE (getScoreGradient E score) (\<lambda>gradient.
     bindE (getRiskColor E riskLevel) (\<lambda>rcolor.
     bindE (ToString E riskLevel) (\<lambda>rtext.
     bindE (render_issues E issues) (\<lambda>iv.
     Inr \<lparr>name_text = name_s,
          resource_label = (if ty = ''EC2'' then ty @ '' Instance'' else ''S3 Bucket''),
          state_badge = badge,
          score_color = color,
          score_text = rounded,
          fill_width = width,
          fill_gradient = gradient,
          risk_color = rcolor,
          risk_text = rtext,
          issues_view = iv\<rparr>))))))))))"

section \<open>API client\<close>

text \<open>\<^verbatim>\<open>hay.includes(needle)\<close>; \<^verbatim>\<open>s.startsWith(p)\<close> is \<^term>\<open>prefix p s\<close>.\<close>

fun includes_str :: "string \<Rightarrow> string \<Rightarrow> bool" where
  "includes_str [] needle = (needle = [])"
| "includes_str (c # cs) needle = (prefix needle (c # cs) \<or> includes_str cs needle)"

subsection \<open>mockApiResponse\<close>

definition sample_summary :: jsval where
  "sample_summary =
     JObj [(''overall'', JObj [(''average_score'', JNum (Fin 85))]),
           (''ec2'', JObj [(''average_score'', JNum (Fin 90)), (''count'', JNum (Fin 2))]),
           (''s3'', JObj [(''average_score'', JNum (Fin 80)), (''count'', JNum (Fin 1))])]"

definition sample_ec2 :: jsval where
  "sample_ec2 =
     JObj [(''assessments'', JArr
       [JObj [(''instance_name'', JStr ''web-server-01''),
              (''security_score'', JNum (Fin 92)),
              (''risk_level'', JStr ''Low''),
              (''ebs_encryption_enabled'', JBool True),
              (''has_public_ip'', JBool False),
              (''state'', JStr ''running''),
              (''issues'', JArr [])],
        JObj [(''instance_name'', JStr ''db-server-01''),
              (''security_score'', JNum (Fin 78)),
              (''risk_level'', JStr ''Medium''),
              (''ebs_encryption_enabled'', JBool False),
              (''has_public_ip'', JBool True),
              (''state'', JStr ''stopped''),
              (''issues'', JArr [JStr ''EBS not encrypted''])]])]"

definition sample_s3 :: jsval where
  "sample_s3 =
     JObj [(''assessments'', JArr
       [JObj [(''bucket_name'', JStr ''my-app-data''),
              (''security_score'', JNum (Fin 80)),
              (''risk_level'', JStr ''Medium''),
              (''encryption_enabled'', JBool True),
              (''public_access_block_disabled'', JBool False),
              (''issues'', JArr [])]])]"

definition sample_recommendations :: jsval where
  "sample_recommendations =
     JArr [JObj [(''title'', JStr ''Enable EBS encryption''),
                 (''description'',
                    JStr ''EBS volumes should be encrypted to protect data at rest.''),
                 (''priority'', JStr ''HIGH''),
                 (''issue'', JStr ''EBS not encrypted''),
                 (''resource_type'', JStr ''EC2'')]]"

definition sample :: jsval where
  "sample =
     JObj [(''summary'', sample_summary), (''ec2'', sample_ec2), (''s3'', sample_s3),
           (''recommendations'', sample_recommendations)]"

definition mockApiResponse :: "string \<Rightarrow> string \<Rightarrow> jsval" where
  "mockApiResponse endpoint http_method =
     (if includes_str endpoint ''/api/dashboard'' then sample
      else if includes_str endpoint ''/api/assessments''
        then JObj [(''ec2'', sample_ec2), (''s3'', sample_s3)]
      else if includes_str endpoint ''/api/recommendations'' then sample_recommendations
      else if includes_str endpoint ''/api/security-score-summary'' then sample_summary
      else JObj [])"

subsection \<open>APIClient.request\<close>

text \<open>
  The transport is a parameter: \<open>fetch\<close> answers a URL and the request options with a
  rejection (a network error) or with a response, whose \<^verbatim>\<open>json()\<close> is its parsed body or
  a rejection of its own. The body of the request is kept as the value handed to
  \<^verbatim>\<open>JSON.stringify\<close>. The console is the list of its entries, in order.
\<close>

record request_options =
  opt_method :: string
  opt_content_type :: string
  opt_body :: "jsval option"

record http_response =
  ok :: bool
  status :: nat
  statusText :: string
  json :: "js_error + jsval"

datatype fetch_result = Rejected js_error | Resolved http_response

datatype console_entry = ConsoleError js_error | ConsoleWarn string

type_synonym transport = "string \<Rightarrow> request_options \<Rightarrow> fetch_result"

text \<open>The body of the \<^verbatim>\<open>try\<close> block.\<close>

definition request_try ::
    "transport \<Rightarrow> string \<Rightarrow> string \<Rightarrow> string \<Rightarrow> jsval \<Rightarrow> js_error + jsval" where
  "request_try fetch baseUrl endpoint http_method payload =
     (let options = \<lparr>opt_method = http_method,
                      opt_content_type = ''application/json'',
                      opt_body = (if truthy payload then Some payload else None)\<rparr> in
      case fetch (baseUrl @ endpoint) options of
        Rejected e \<Rightarrow> Inl e
      | Resolved response \<Rightarrow>
          if \<not> ok response then Inl (ApiError (status response) (statusText response))
          else json response)"

definition request ::
    "transport \<Rightarrow> string \<Rightarrow> string \<Rightarrow> string \<Rightarrow> jsval
       \<Rightarrow> console_entry list \<times> (js_error + jsval)" where
  "request fetch baseUrl endpoint http_method payload =
     (case request_try fetch baseUrl endpoint http_method payload of
        Inr v \<Rightarrow> ([], Inr v)
      | Inl error \<Rightarrow>
          if endpoint \<noteq> [] \<and> prefix ''/api'' endpoint
          then ([ConsoleError error, ConsoleWarn endpoint],
                Inr (mockApiResponse endpoint http_method))
          else ([ConsoleError error], Inl error))"

definition getDashboardData :: "transport \<Rightarrow> string \<Rightarrow> console_entry list \<times> (js_error + jsval)" where
  "getDashboardData fetch baseUrl = request fetch baseUrl ''/api/dashboard'' ''GET'' JNull"

definition getAssessments :: "transport \<Rightarrow> string \<Rightarrow> console_entry list \<times> (js_error + jsval)" where
  "getAssessments fetch baseUrl = request fetch baseUrl ''/api/assessments'' ''GET'' JNull"

definition getRecommendations :: "transport \<Rightarrow> string \<Rightarrow> console_entry list \<times> (js_error + jsval)" where
  "getRecommendations fetch baseUrl = request fetch baseUrl ''/api/recommendations'' ''GET'' JNull"

definition getSecurityScoreSummary ::
    "transport \<Rightarrow> string \<Rightarrow> console_entry list \<times> (js_error + jsval)" where
  "getSecurityScoreSummary fetch baseUrl =
     request fetch baseUrl ''/api/security-score-summary'' ''GET'' JNull"

definition saveAssessment ::
    "transport \<Rightarrow> string \<Rightarrow> jsval \<Rightarrow> console_entry list \<times> (js_error + jsval)" where
  "saveAssessment fetch baseUrl assessment =
     request fetch baseUrl ''/api/assessment'' ''POST'' assessment"

definition saveRecommendation ::
    "transport \<Rightarrow> string \<Rightarrow> jsval \<Rightarrow> console_entry list \<times> (js_error + jsval)" where
  "saveRecommendation fetch baseUrl recommendation =
     request fetch baseUrl ''/api/recommendation'' ''POST'' recommendation"

section \<open>Vocabulary of the statements\<close>

text \<open>
  An engine to evaluate the definitions with at concrete inputs. None of the inputs used
  below reaches its functions.
\<close>

definition demo_builtin_text :: "string \<Rightarrow> string" where
  "demo_builtin_text key =
     (if key = ''__proto__'' then ''[object Object]''
      else if key = ''constructor'' then ''function Object() { [native code] }''
      else ''function '' @ key @ ''() { [native code] }'')"

definition demo_engine :: engine where
  "demo_engine =
     \<lparr>fmt_real = (\<lambda>x. ''?''), parse_number = (\<lambda>s. NaN), lower_unicode = (\<lambda>s. s),
      builtin_text = demo_builtin_text\<rparr>"

text \<open>
  The value converts to a string, and so to a number, without a throw: it is not an
  object with a property \<^verbatim>\<open>toString\<close> of its own, and not an array that holds one.
\<close>

fun printable :: "jsval \<Rightarrow> bool" where
  "printable (JObj kvs) = (map_of kvs ''toString'' = None)"
| "printable (JArr xs) = list_all printable xs"
| "printable v = True"

text \<open>The properties \<open>ks\<close> of the record \<open>a\<close> are such values, where they are present.\<close>

definition printable_fields :: "jsval \<Rightarrow> string list \<Rightarrow> bool" where
  "printable_fields a ks = list_all (\<lambda>k. printable (own_prop a k)) ks"

text \<open>The entry's \<^verbatim>\<open>risk_level\<close> is the string \<open>level\<close>.\<close>

definition risk_is :: "string \<Rightarrow> jsval \<Rightarrow> bool" where
  "risk_is level a = (own_prop a ''risk_level'' = JStr level)"

text \<open>
  An entry as the data model has it, as far as its risk level goes: a value with
  properties whose \<^verbatim>\<open>risk_level\<close> is a string or is absent (or otherwise falsy).
\<close>

fun string_or_falsy :: "jsval \<Rightarrow> bool" where
  "string_or_falsy (JStr s) = True"
| "string_or_falsy v = (\<not> truthy v)"

definition typed_risk :: "jsval \<Rightarrow> bool" where
  "typed_risk a = (\<not> nullish a \<and> string_or_falsy (own_prop a ''risk_level''))"

text \<open>The key under which such an entry is counted.\<close>

definition risk_key :: "jsval \<Rightarrow> string" where
  "risk_key a =
     (case own_prop a ''risk_level'' of
        JStr s \<Rightarrow> if s = [] then ''Unknown'' else s
      | _ \<Rightarrow> ''Unknown'')"

text \<open>The entry's flag \<open>k\<close> is set (truthy).\<close>

definition flag_on :: "string \<Rightarrow> jsval \<Rightarrow> bool" where
  "flag_on k a = truthy (own_prop a k)"

text \<open>The payload of the worked example: one EC2 assessment and one S3 assessment.\<close>

definition example_payload :: jsval where
  "example_payload =
     JObj [(''ec2'', JObj [(''assessments'',
              JArr [JObj [(''ebs_encryption_enabled'', JBool False),
                          (''has_public_ip'', JBool True),
                          (''risk_level'', JStr ''Medium'')]])]),
           (''s3'', JObj [(''assessments'',
              JArr [JObj [(''encryption_enabled'', JBool True),
                          (''public_access_block_disabled'', JBool False),
                          (''risk_level'', JStr ''Low'')]])])]"

text \<open>What the badge of a recommendation shows for a priority that is a string or is missing.\<close>

fun priority_shown :: "jsval \<Rightarrow> string" where
  "priority_shown (JStr s) = (if s = [] then ''MEDIUM'' else s)"
| "priority_shown v = ''MEDIUM''"

text \<open>The endpoints of the six methods of the client.\<close>

definition client_endpoints :: "string list" where
  "client_endpoints =
     [''/api/dashboard'', ''/api/assessments'', ''/api/recommendations'',
      ''/api/security-score-summary'', ''/api/assessment'', ''/api/recommendation'']"

text \<open>A transport with no backend behind it, and one whose backend answers 503.\<close>

definition offline_fetch :: transport where
  "offline_fetch url options = Rejected NetworkError"

definition unavailable_fetch :: transport where
  "unavailable_fetch url options =
     Resolved \<lparr>ok = False, status = 503, statusText = ''Service Unavailable'',
               json = Inl SyntaxError\<rparr>"

section \<open>Basic facts\<close>

lemma bindE_Inl [simp]: "bindE (Inl e) f = Inl e"
  by (simp add: bindE_def)

lemma bindE_Inr [simp]: "bindE (Inr v) f = f v"
  by (simp add: bindE_def)

lemma js_ge_number [simp]: "js_ge E (JNum n) c = Inr (num_ge n c)"
  by (simp add: js_ge_def)

section \<open>Score tiers\<close>

text \<open>
  C1. For every number, \<^verbatim>\<open>getRiskLevel\<close> answers Low exactly from 80 up, Medium exactly
  from 60 up to but excluding 80, High exactly from 40 up to but excluding 60, and Critical
  exactly below 40; plus infinity is Low, minus infinity and NaN are Critical. The
  function is total: every number gets one of the four levels, and none makes it throw.
\<close>

theorem getRiskLevel_tiers:
  "(getRiskLevel E (JNum (Fin x)) = Inr ''Low'') = (80 \<le> x)
   \<and> (getRiskLevel E (JNum (Fin x)) = Inr ''Medium'') = (60 \<le> x \<and> x < 80)
   \<and> (getRiskLevel E (JNum (Fin x)) = Inr ''High'') = (40 \<le> x \<and> x < 60)
   \<and> (getRiskLevel E (JNum (Fin x)) = Inr ''Critical'') = (x < 40)
   \<and> getRiskLevel E (JNum PosInf) = Inr ''Low''
   \<and> getRiskLevel E (JNum NegInf) = Inr ''Critical''
   \<and> getRiskLevel E (JNum NaN) = Inr ''Critical''
   \<and> getRiskLevel E (JNum n) \<in> {Inr ''Low'', Inr ''Medium'', Inr ''High'', Inr ''Critical''}"
  by (auto simp: getRiskLevel_def)

text \<open>
  C2. For every score (in particular every number of the range 0 to 100),
  \<^verbatim>\<open>getScoreColor\<close> and \<^verbatim>\<open>getScoreGradient\<close> are in the tier of a colour exactly when
  \<^verbatim>\<open>getRiskLevel\<close> is in the level of that tier, and the tiers of the colour start at
  40, 60 and 80, each cut point belonging to the tier above it. On a value that does not
  convert to a number the three functions throw the same error.
\<close>

theorem score_color_tiers_agree:
  "(getScoreColor E s = Inr ''#2D8B47'') = (getRiskLevel E s = Inr ''Low'')
   \<and> (getScoreColor E s = Inr ''#FFC107'') = (getRiskLevel E s = Inr ''Medium'')
   \<and> (getScoreColor E s = Inr ''#FF9800'') = (getRiskLevel E s = Inr ''High'')
   \<and> (getScoreColor E s = Inr ''#D32F2F'') = (getRiskLevel E s = Inr ''Critical'')
   \<and> (getScoreGradient E s = Inr ''linear-gradient(90deg, #2D8B47, #4CAF50)'')
        = (getRiskLevel E s = Inr ''Low'')
   \<and> (getScoreGradient E s = Inr ''linear-gradient(90deg, #FFC107, #FF9800)'')
        = (getRiskLevel E s = Inr ''Medium'')
   \<and> (getScoreGradient E s = Inr ''linear-gradient(90deg, #FF9800, #FF6B6B)'')
        = (getRiskLevel E s = Inr ''High'')
   \<and> (getScoreGradient E s = Inr ''linear-gradient(90deg, #D32F2F, #F44336)'')
        = (getRiskLevel E s = Inr ''Critical'')
   \<and> (getScoreColor E s = Inl e) = (getRiskLevel E s = Inl e)
   \<and> (getScoreGradient E s = Inl e) = (getRiskLevel E s = Inl e)
   \<and> (getScoreColor E (JNum (Fin x)) = Inr ''#2D8B47'') = (80 \<le> x)
   \<and> (getScoreColor E (JNum (Fin x)) = Inr ''#FFC107'') = (60 \<le> x \<and> x < 80)
   \<and> (getScoreColor E (JNum (Fin x)) = Inr ''#FF9800'') = (40 \<le> x \<and> x < 60)
   \<and> (getScoreColor E (JNum (Fin x)) = Inr ''#D32F2F'') = (x < 40)"
proof (cases "ToNumber E s")
  case (Inl e')
  then show ?thesis
    by (auto simp: getRiskLevel_def getScoreColor_def getScoreGradient_def js_ge_def)
next
  case (Inr n)
  then show ?thesis
    by (auto simp: getRiskLevel_def getScoreColor_def getScoreGradient_def js_ge_def)
qed

section \<open>Loops over the assessments\<close>

lemmas payload_simps =
  all_assessments_def assessments_or_empty_def get_prop_def opt_chain_def por_def nullish_def

lemma forEach_append:
  "forEach f (xs @ ys) s = bindE (forEach f xs s) (forEach f ys)"
  by (induction xs arbitrary: s) (auto split: sum.splits)

lemma critical_callback_eq:
  "critical_callback a n =
     (if nullish a then Inl TypeError
      else Inr (n + (if risk_is ''Critical'' a then 1 else 0)))"
  by (simp add: critical_callback_def get_prop_def risk_is_def)

lemma forEach_critical:
  "forEach critical_callback xs n =
     (if \<exists>x \<in> set xs. nullish x then Inl TypeError
      else Inr (n + length (filter (risk_is ''Critical'') xs)))"
  by (induction xs arbitrary: n) (auto simp: critical_callback_eq)

lemma filter_length_mset:
  "mset xs = mset ys \<Longrightarrow> length (filter P xs) = length (filter P ys)"
  by (metis mset_filter size_mset)


section \<open>Critical count\<close>

text \<open>
  C9. When the assessments of one payload are a permutation of the assessments of another
  (EC2 and S3 entries taken together), \<^verbatim>\<open>countCriticalIssues\<close> gives the same result on
  both; the result is the number of entries whose \<^verbatim>\<open>risk_level\<close> is strictly equal to
  \<^verbatim>\<open>'Critical'\<close>, unless an entry is \<^verbatim>\<open>null\<close> or \<^verbatim>\<open>undefined\<close>, when the
  function throws on both.
\<close>

theorem countCritical_permutation:
  assumes "all_assessments d = Inr xs" and "all_assessments d' = Inr ys"
      and "mset xs = mset ys"
  shows "countCriticalIssues d = countCriticalIssues d'
         \<and> countCriticalIssues d =
             (if \<exists>x \<in> set xs. nullish x then Inl TypeError
              else Inr (length (filter (risk_is ''Critical'') xs)))"
proof -
  from assms(3) have "set xs = set ys" by (rule mset_eq_setD)
  moreover from assms(3)
  have "length (filter (risk_is ''Critical'') xs) = length (filter (risk_is ''Critical'') ys)"
    by (rule filter_length_mset)
  ultimately show ?thesis
    using assms(1,2) by (simp add: countCriticalIssues_def forEach_critical)
qed

theorem countCritical_permutation_witness:
  "countCriticalIssues
     (JObj [(''ec2'', JObj [(''assessments'',
               JArr [JObj [(''risk_level'', JStr ''Critical'')],
                     JObj [(''risk_level'', JStr ''Low'')]])]),
            (''s3'', JObj [(''assessments'', JArr [JObj [(''risk_level'', JStr ''Critical'')]])])])
   = countCriticalIssues
     (JObj [(''ec2'', JObj [(''assessments'',
               JArr [JObj [(''risk_level'', JStr ''Low'')],
                     JObj [(''risk_level'', JStr ''Critical'')]])]),
            (''s3'', JObj [(''assessments'', JArr [JObj [(''risk_level'', JStr ''Critical'')]])])])
   \<and> countCriticalIssues
     (JObj [(''ec2'', JObj [(''assessments'',
               JArr [JObj [(''risk_level'', JStr ''Critical'')],
                     JObj [(''risk_level'', JStr ''Low'')]])]),
            (''s3'', JObj [(''assessments'', JArr [JObj [(''risk_level'', JStr ''Critical'')]])])])
   = Inr 2"
proof -
  let ?c = "JObj [(''risk_level'', JStr ''Critical'')]"
  let ?l = "JObj [(''risk_level'', JStr ''Low'')]"
  let ?d = "JObj [(''ec2'', JObj [(''assessments'', JArr [?c, ?l])]),
                  (''s3'', JObj [(''assessments'', JArr [?c])])]"
  let ?d' = "JObj [(''ec2'', JObj [(''assessments'', JArr [?l, ?c])]),
                   (''s3'', JObj [(''assessments'', JArr [?c])])]"
  have a: "all_assessments ?d = Inr [?c, ?l, ?c]" by (simp add: payload_simps)
  have b: "all_assessments ?d' = Inr [?l, ?c, ?c]" by (simp add: payload_simps)
  have c: "mset [?c, ?l, ?c] = mset [?l, ?c, ?c]" by simp
  have d: "\<not> (\<exists>x \<in> set [?c, ?l, ?c]. nullish x)" by (simp add: nullish_def)
  have e: "length (filter (risk_is ''Critical'') [?c, ?l, ?c]) = 2" by (simp add: risk_is_def)
  from countCritical_permutation [OF a b c, unfolded if_not_P [OF d] e] show ?thesis .
qed

section \<open>Risk distribution\<close>

lemma risk_callback_typed:
  assumes "typed_risk a"
  shows "risk_callback E a m =
           Inr (if has_property m (risk_key a) then increment m (risk_key a) else m)"
proof (cases "own_prop a ''risk_level''")
  case (JStr s)
  with assms show ?thesis
    by (simp add: risk_callback_def get_prop_def typed_risk_def por_def risk_key_def)
qed (use assms in \<open>simp_all add: risk_callback_def get_prop_def typed_risk_def por_def risk_key_def\<close>)

lemma risk_key_level:
  assumes "level \<in> {''Low'', ''Medium'', ''High'', ''Critical''}"
  shows "(risk_key a = level) = risk_is level a"
  using assms by (auto simp: risk_key_def risk_is_def split: jsval.splits)

lemma increment_other:
  "key \<noteq> level \<Longrightarrow> increment m key level = m level"
  by (cases "m key") (simp_all add: increment_def)

lemma increment_same:
  "m level = Some (Fin c) \<Longrightarrow> increment m level level = Some (Fin (c + 1))"
  by (simp add: increment_def)

lemma risk_callback_count:
  assumes "typed_risk a" and "level \<in> {''Low'', ''Medium'', ''High'', ''Critical''}"
      and "m level = Some (Fin c)"
  shows "\<exists>m'. risk_callback E a m = Inr m'
           \<and> m' level = Some (Fin (c + (if risk_is level a then 1 else 0)))"
proof (cases "risk_key a = level")
  case True
  with assms(3) have "has_property m (risk_key a)" by (simp add: has_property_def)
  with True assms show ?thesis
    by (simp add: risk_callback_typed increment_same flip: risk_key_level)
next
  case False
  with assms show ?thesis
    by (simp add: risk_callback_typed increment_other flip: risk_key_level)
qed

lemma forEach_risk_count:
  assumes "list_all typed_risk xs" and "level \<in> {''Low'', ''Medium'', ''High'', ''Critical''}"
      and "m level = Some (Fin c)"
  shows "\<exists>m'. forEach (risk_callback E) xs m = Inr m'
           \<and> m' level = Some (Fin (c + real (length (filter (risk_is level) xs))))"
  using assms(1,3)
proof (induction xs arbitrary: m c)
  case Nil
  then show ?case by simp
next
  case (Cons a xs)
  from Cons.prems(1) have a: "typed_risk a" and xs: "list_all typed_risk xs" by simp_all
  from risk_callback_count [where m = m and level = level and c = c and E = E, OF a assms(2) Cons.prems(2)]
  obtain m1 where
    m1: "risk_callback E a m = Inr m1"
        "m1 level = Some (Fin (c + (if risk_is level a then 1 else 0)))"
    by blast
  from Cons.IH [where m = m1, OF xs m1(2)] obtain m' where
    "forEach (risk_callback E) xs m1 = Inr m'"
    "m' level = Some (Fin (c + (if risk_is level a then 1 else 0)
                            + real (length (filter (risk_is level) xs))))"
    by blast
  with m1(1) show ?case by (auto simp: algebra_simps)
qed

lemma all_assessments_arrays:
  assumes "assessments_or_empty d ''ec2'' = Inr (JArr es)"
      and "assessments_or_empty d ''s3'' = Inr (JArr ss)"
  shows "all_assessments d = Inr (es @ ss)"
  using assms by (simp add: all_assessments_def)

lemma risk_distribution_counts:
  assumes "all_assessments d = Inr xs" and "list_all typed_risk xs"
  shows "updateRiskDistributionChart E d =
           Inr [JNum (Fin (real (length (filter (risk_is ''Low'') xs)))),
                JNum (Fin (real (length (filter (risk_is ''Medium'') xs)))),
                JNum (Fin (real (length (filter (risk_is ''High'') xs)))),
                JNum (Fin (real (length (filter (risk_is ''Critical'') xs))))]"
proof -
  let ?run = "forEach (risk_callback E) xs initial_riskCounts"
  have init: "initial_riskCounts ''Low'' = Some (Fin 0)" "initial_riskCounts ''Medium'' = Some (Fin 0)"
    "initial_riskCounts ''High'' = Some (Fin 0)" "initial_riskCounts ''Critical'' = Some (Fin 0)"
    by (simp_all add: initial_riskCounts_def)
  from forEach_risk_count [where m = initial_riskCounts and level = "''Low''" and E = E, OF assms(2) _ init(1)] obtain m where
    m: "?run = Inr m" and low: "m ''Low'' = Some (Fin (real (length (filter (risk_is ''Low'') xs))))"
    by auto
  from forEach_risk_count [where m = initial_riskCounts and level = "''Medium''" and E = E, OF assms(2) _ init(2)] m
  have med: "m ''Medium'' = Some (Fin (real (length (filter (risk_is ''Medium'') xs))))"
    by auto
  from forEach_risk_count [where m = initial_riskCounts and level = "''High''" and E = E, OF assms(2) _ init(3)] m
  have high: "m ''High'' = Some (Fin (real (length (filter (risk_is ''High'') xs))))"
    by auto
  from forEach_risk_count [where m = initial_riskCounts and level = "''Critical''" and E = E, OF assms(2) _ init(4)] m
  have crit: "m ''Critical'' = Some (Fin (real (length (filter (risk_is ''Critical'') xs))))"
    by auto
  show ?thesis
    by (simp add: updateRiskDistributionChart_def assms(1) m read_count_def low med high crit)
qed



text \<open>
  C4. When both assessment lists are arrays of entries of the data model, the risk
  distribution runs the loop over the EC2 entries followed by the S3 entries, and the four
  counts it hands to the chart are the numbers of entries whose \<^verbatim>\<open>risk_level\<close> is Low,
  Medium, High and Critical; every other entry (no level, \<^verbatim>\<open>'Unknown'\<close>, any other
  string) changes none of the four counts and raises nothing. With no entries the four
  counts are 0.
\<close>

theorem risk_distribution_buckets:
  assumes "assessments_or_empty d ''ec2'' = Inr (JArr es)"
      and "assessments_or_empty d ''s3'' = Inr (JArr ss)"
      and "list_all typed_risk (es @ ss)"
  shows "updateRiskDistributionChart E d =
           bindE (forEach (risk_callback E) (es @ ss) initial_riskCounts) (\<lambda>riskCounts.
             Inr [read_count riskCounts ''Low'', read_count riskCounts ''Medium'',
                  read_count riskCounts ''High'', read_count riskCounts ''Critical''])
         \<and> updateRiskDistributionChart E d =
             Inr [JNum (Fin (real (length (filter (risk_is ''Low'') (es @ ss))))),
                  JNum (Fin (real (length (filter (risk_is ''Medium'') (es @ ss))))),
                  JNum (Fin (real (length (filter (risk_is ''High'') (es @ ss))))),
                  JNum (Fin (real (length (filter (risk_is ''Critical'') (es @ ss)))))]
         \<and> (es = [] \<and> ss = [] \<longrightarrow>
              updateRiskDistributionChart E d =
                Inr [JNum (Fin 0), JNum (Fin 0), JNum (Fin 0), JNum (Fin 0)])"
proof -
  have all: "all_assessments d = Inr (es @ ss)"
    using assms(1,2) by (rule all_assessments_arrays)
  have loop: "updateRiskDistributionChart E d =
           bindE (forEach (risk_callback E) (es @ ss) initial_riskCounts) (\<lambda>riskCounts.
             Inr [read_count riskCounts ''Low'', read_count riskCounts ''Medium'',
                  read_count riskCounts ''High'', read_count riskCounts ''Critical''])"
    by (simp add: updateRiskDistributionChart_def all)
  have counts: "updateRiskDistributionChart E d =
             Inr [JNum (Fin (real (length (filter (risk_is ''Low'') (es @ ss))))),
                  JNum (Fin (real (length (filter (risk_is ''Medium'') (es @ ss))))),
                  JNum (Fin (real (length (filter (risk_is ''High'') (es @ ss))))),
                  JNum (Fin (real (length (filter (risk_is ''Critical'') (es @ ss)))))]"
    using all assms(3) by (rule risk_distribution_counts)
  have "updateRiskDistributionChart E d =
          Inr [JNum (Fin 0), JNum (Fin 0), JNum (Fin 0), JNum (Fin 0)]"
    if "es = [] \<and> ss = []"
    using counts that by simp
  with loop counts show ?thesis by blast
qed

theorem risk_distribution_buckets_witness:
  "updateRiskDistributionChart demo_engine
     (JObj [(''ec2'', JObj [(''assessments'',
               JArr [JObj [(''risk_level'', JStr ''Low'')],
                     JObj [(''risk_level'', JStr ''Unknown'')],
                     JObj [(''instance_name'', JStr ''no-level'')]])]),
            (''s3'', JObj [(''assessments'',
               JArr [JObj [(''risk_level'', JStr ''Critical'')],
                     JObj [(''risk_level'', JStr ''toString'')],
                     JObj [(''risk_level'', JStr ''Low'')]])])])
   = Inr [JNum (Fin 2), JNum (Fin 0), JNum (Fin 0), JNum (Fin 1)]
   \<and> updateRiskDistributionChart demo_engine (JObj [])
   = Inr [JNum (Fin 0), JNum (Fin 0), JNum (Fin 0), JNum (Fin 0)]"
proof -
  let ?es = "[JObj [(''risk_level'', JStr ''Low'')],
              JObj [(''risk_level'', JStr ''Unknown'')],
              JObj [(''instance_name'', JStr ''no-level'')]]"
  let ?ss = "[JObj [(''risk_level'', JStr ''Critical'')],
              JObj [(''risk_level'', JStr ''toString'')],
              JObj [(''risk_level'', JStr ''Low'')]]"
  let ?d = "JObj [(''ec2'', JObj [(''assessments'', JArr ?es)]),
                  (''s3'', JObj [(''assessments'', JArr ?ss)])]"
  have a: "assessments_or_empty ?d ''ec2'' = Inr (JArr ?es)" by (simp add: payload_simps)
  have b: "assessments_or_empty ?d ''s3'' = Inr (JArr ?ss)" by (simp add: payload_simps)
  have c: "list_all typed_risk (?es @ ?ss)" by (simp add: typed_risk_def nullish_def)
  have a0: "assessments_or_empty (JObj []) ''ec2'' = Inr (JArr [])" by (simp add: payload_simps)
  have b0: "assessments_or_empty (JObj []) ''s3'' = Inr (JArr [])" by (simp add: payload_simps)
  have c0: "list_all typed_risk ([] @ [])" by simp
  from risk_distribution_buckets [OF a b c, of demo_engine, THEN conjunct2, THEN conjunct1]
       risk_distribution_buckets [OF a0 b0 c0, of demo_engine, THEN conjunct2, THEN conjunct1]
  show ?thesis by (simp add: risk_is_def)
qed

text \<open>
  The hypothesis on the entries is needed. An entry that is \<^verbatim>\<open>null\<close> makes the loop
  throw; a \<^verbatim>\<open>risk_level\<close> that is not a string is counted under the string it
  converts to, the array \<^verbatim>\<open>['Low']\<close> under \<^verbatim>\<open>Low\<close>; and one that does not
  convert to a string makes the loop throw.
\<close>

lemma risk_distribution_null_entry:
  "updateRiskDistributionChart E (JObj [(''ec2'', JObj [(''assessments'', JArr [JNull])])])
     = Inl TypeError"
  by (simp add: updateRiskDistributionChart_def payload_simps risk_callback_def)

lemma risk_distribution_array_level:
  "updateRiskDistributionChart E
     (JObj [(''ec2'', JObj [(''assessments'', JArr [JObj [(''risk_level'', JArr [JStr ''Low''])]])])])
     = Inr [JNum (Fin 1), JNum (Fin 0), JNum (Fin 0), JNum (Fin 0)]"
  by (simp add: updateRiskDistributionChart_def payload_simps risk_callback_def has_property_def
        increment_def initial_riskCounts_def read_count_def)

lemma risk_distribution_unprintable_level:
  "updateRiskDistributionChart E
     (JObj [(''ec2'', JObj [(''assessments'',
        JArr [JObj [(''risk_level'', JObj [(''toString'', JNull)])]])])])
     = Inl TypeError"
  by (simp add: updateRiskDistributionChart_def payload_simps risk_callback_def)

section \<open>Breakdown charts\<close>

lemma ec2_callback_eq:
  "ec2_callback a b =
     (if nullish a then Inl TypeError
      else Inr \<lparr>encrypted = encrypted b + (if flag_on ''ebs_encryption_enabled'' a then 1 else 0),
               notEncrypted = notEncrypted b + (if flag_on ''ebs_encryption_enabled'' a then 0 else 1),
               publicAccess = publicAccess b + (if flag_on ''has_public_ip'' a then 1 else 0),
               restricted = restricted b + (if flag_on ''has_public_ip'' a then 0 else 1)\<rparr>)"
  by (simp add: ec2_callback_def get_prop_def flag_on_def Let_def)

lemma forEach_ec2:
  "forEach ec2_callback xs b =
     (if \<exists>x \<in> set xs. nullish x then Inl TypeError
      else Inr \<lparr>encrypted = encrypted b + length (filter (flag_on ''ebs_encryption_enabled'') xs),
               notEncrypted = notEncrypted b
                 + length (filter (\<lambda>a. \<not> flag_on ''ebs_encryption_enabled'' a) xs),
               publicAccess = publicAccess b + length (filter (flag_on ''has_public_ip'') xs),
               restricted = restricted b
                 + length (filter (\<lambda>a. \<not> flag_on ''has_public_ip'' a) xs)\<rparr>)"
  by (induction xs arbitrary: b) (simp_all add: ec2_callback_eq)

lemma s3_callback_eq:
  "s3_callback a b =
     (if nullish a then Inl TypeError
      else Inr \<lparr>s3_encrypted = s3_encrypted b + (if flag_on ''encryption_enabled'' a then 1 else 0),
               s3_notEncrypted = s3_notEncrypted b + (if flag_on ''encryption_enabled'' a then 0 else 1),
               publicAccessAllowed = publicAccessAllowed b
                 + (if flag_on ''public_access_block_disabled'' a then 1 else 0),
               secured = secured b + (if flag_on ''public_access_block_disabled'' a then 0 else 1)\<rparr>)"
  by (simp add: s3_callback_def get_prop_def flag_on_def Let_def)

lemma forEach_s3:
  "forEach s3_callback xs b =
     (if \<exists>x \<in> set xs. nullish x then Inl TypeError
      else Inr \<lparr>s3_encrypted = s3_encrypted b + length (filter (flag_on ''encryption_enabled'') xs),
               s3_notEncrypted = s3_notEncrypted b
                 + length (filter (\<lambda>a. \<not> flag_on ''encryption_enabled'' a) xs),
               publicAccessAllowed = publicAccessAllowed b
                 + length (filter (flag_on ''public_access_block_disabled'') xs),
               secured = secured b
                 + length (filter (\<lambda>a. \<not> flag_on ''public_access_block_disabled'' a) xs)\<rparr>)"
  by (induction xs arbitrary: b) (simp_all add: s3_callback_eq)

text \<open>
  C5. The breakdown counts are two independent two-way splits of the same list: for the
  EC2 entries, those with the encryption flag set against those without, and those with a
  public IP against those without, so that each pair of counts adds up to the number of
  entries (and the four counts to twice that number); likewise for the S3 entries with
  their two flags. On the worked example (one unencrypted EC2 instance with a public IP
  and risk Medium, one encrypted S3 bucket with the public access block in place and risk
  Low) the EC2 counts are 0, 1, 1, 0, the S3 counts are 1, 0, 0, 1, and the risk
  distribution is Low 1, Medium 1, High 0, Critical 0.
\<close>

theorem breakdown_independent_splits:
  assumes "assessments_or_empty d ''ec2'' = Inr (JArr es)"
      and "assessments_or_empty d ''s3'' = Inr (JArr ss)"
      and "list_all (\<lambda>a. \<not> nullish a) (es @ ss)"
  shows "updateEC2BreakdownChart d =
           Inr \<lparr>encrypted = length (filter (flag_on ''ebs_encryption_enabled'') es),
                notEncrypted = length (filter (\<lambda>a. \<not> flag_on ''ebs_encryption_enabled'' a) es),
                publicAccess = length (filter (flag_on ''has_public_ip'') es),
                restricted = length (filter (\<lambda>a. \<not> flag_on ''has_public_ip'' a) es)\<rparr>
         \<and> length (filter (flag_on ''ebs_encryption_enabled'') es)
             + length (filter (\<lambda>a. \<not> flag_on ''ebs_encryption_enabled'' a) es) = length es
         \<and> length (filter (flag_on ''has_public_ip'') es)
             + length (filter (\<lambda>a. \<not> flag_on ''has_public_ip'' a) es) = length es
         \<and> updateS3BreakdownChart d =
           Inr \<lparr>s3_encrypted = length (filter (flag_on ''encryption_enabled'') ss),
                s3_notEncrypted = length (filter (\<lambda>a. \<not> flag_on ''encryption_enabled'' a) ss),
                publicAccessAllowed = length (filter (flag_on ''public_access_block_disabled'') ss),
                secured = length (filter (\<lambda>a. \<not> flag_on ''public_access_block_disabled'' a) ss)\<rparr>
         \<and> length (filter (flag_on ''encryption_enabled'') ss)
             + length (filter (\<lambda>a. \<not> flag_on ''encryption_enabled'' a) ss) = length ss
         \<and> length (filter (flag_on ''public_access_block_disabled'') ss)
             + length (filter (\<lambda>a. \<not> flag_on ''public_access_block_disabled'' a) ss) = length ss
         \<and> updateEC2BreakdownChart example_payload =
             Inr \<lparr>encrypted = 0, notEncrypted = 1, publicAccess = 1, restricted = 0\<rparr>
         \<and> updateS3BreakdownChart example_payload =
             Inr \<lparr>s3_encrypted = 1, s3_notEncrypted = 0, publicAccessAllowed = 0, secured = 1\<rparr>
         \<and> updateRiskDistributionChart E example_payload =
             Inr [JNum (Fin 1), JNum (Fin 1), JNum (Fin 0), JNum (Fin 0)]"
proof -
  from assms(3) have es: "\<not> (\<exists>x \<in> set es. nullish x)" and ss: "\<not> (\<exists>x \<in> set ss. nullish x)"
    by (auto simp: list_all_iff)
  have ec2: "updateEC2BreakdownChart d =
           Inr \<lparr>encrypted = length (filter (flag_on ''ebs_encryption_enabled'') es),
                notEncrypted = length (filter (\<lambda>a. \<not> flag_on ''ebs_encryption_enabled'' a) es),
                publicAccess = length (filter (flag_on ''has_public_ip'') es),
                restricted = length (filter (\<lambda>a. \<not> flag_on ''has_public_ip'' a) es)\<rparr>"
    using es by (simp add: updateEC2BreakdownChart_def assms(1) forEach_ec2)
  have s3: "updateS3BreakdownChart d =
           Inr \<lparr>s3_encrypted = length (filter (flag_on ''encryption_enabled'') ss),
                s3_notEncrypted = length (filter (\<lambda>a. \<not> flag_on ''encryption_enabled'' a) ss),
                publicAccessAllowed = length (filter (flag_on ''public_access_block_disabled'') ss),
                secured = length (filter (\<lambda>a. \<not> flag_on ''public_access_block_disabled'' a) ss)\<rparr>"
    using ss by (simp add: updateS3BreakdownChart_def assms(2) forEach_s3)
  have split: "length (filter P xs) + length (filter (\<lambda>a. \<not> P a) xs) = length xs"
    for P :: "jsval \<Rightarrow> bool" and xs
    by (rule sum_length_filter_compl)
  have ex1: "updateEC2BreakdownChart example_payload =
             Inr \<lparr>encrypted = 0, notEncrypted = 1, publicAccess = 1, restricted = 0\<rparr>"
    by (simp add: updateEC2BreakdownChart_def example_payload_def payload_simps ec2_callback_eq
          flag_on_def)
  have ex2: "updateS3BreakdownChart example_payload =
             Inr \<lparr>s3_encrypted = 1, s3_notEncrypted = 0, publicAccessAllowed = 0, secured = 1\<rparr>"
    by (simp add: updateS3BreakdownChart_def example_payload_def payload_simps s3_callback_eq
          flag_on_def)
  have "all_assessments example_payload =
          Inr [JObj [(''ebs_encryption_enabled'', JBool False), (''has_public_ip'', JBool True),
                     (''risk_level'', JStr ''Medium'')],
               JObj [(''encryption_enabled'', JBool True),
                     (''public_access_block_disabled'', JBool False),
                     (''risk_level'', JStr ''Low'')]]"
    by (simp add: example_payload_def payload_simps)
  from risk_distribution_counts [OF this, of E]
  have ex3: "updateRiskDistributionChart E example_payload =
             Inr [JNum (Fin 1), JNum (Fin 1), JNum (Fin 0), JNum (Fin 0)]"
    by (simp add: typed_risk_def nullish_def risk_is_def)
  from ec2 s3 ex1 ex2 ex3 show ?thesis by (simp only: split simp_thms)
qed

theorem breakdown_independent_splits_witness:
  "updateEC2BreakdownChart sample =
     Inr \<lparr>encrypted = 1, notEncrypted = 1, publicAccess = 1, restricted = 1\<rparr>
   \<and> updateS3BreakdownChart sample =
     Inr \<lparr>s3_encrypted = 1, s3_notEncrypted = 0, publicAccessAllowed = 0, secured = 1\<rparr>"
proof -
  let ?es = "[JObj [(''instance_name'', JStr ''web-server-01''),
              (''security_score'', JNum (Fin 92)),
              (''risk_level'', JStr ''Low''),
              (''ebs_encryption_enabled'', JBool True),
              (''has_public_ip'', JBool False),
              (''state'', JStr ''running''),
              (''issues'', JArr [])],
        JObj [(''instance_name'', JStr ''db-server-01''),
              (''security_score'', JNum (Fin 78)),
              (''risk_level'', JStr ''Medium''),
              (''ebs_encryption_enabled'', JBool False),
              (''has_public_ip'', JBool True),
              (''state'', JStr ''stopped''),
              (''issues'', JArr [JStr ''EBS not encrypted''])]]"
  let ?ss = "[JObj [(''bucket_name'', JStr ''my-app-data''),
              (''security_score'', JNum (Fin 80)),
              (''risk_level'', JStr ''Medium''),
              (''encryption_enabled'', JBool True),
              (''public_access_block_disabled'', JBool False),
              (''issues'', JArr [])]]"
  have a: "assessments_or_empty sample ''ec2'' = Inr (JArr ?es)"
    by (simp add: sample_def sample_ec2_def payload_simps)
  have b: "assessments_or_empty sample ''s3'' = Inr (JArr ?ss)"
    by (simp add: sample_def sample_s3_def payload_simps)
  have c: "list_all (\<lambda>a. \<not> nullish a) (?es @ ?ss)" by (simp add: nullish_def)
  from breakdown_independent_splits [OF a b c, of demo_engine]
  show ?thesis by (simp add: flag_on_def)
qed

section \<open>KPI cards\<close>

lemma nat_to_string_digit: "n < 10 \<Longrightarrow> nat_to_string n = [''0123456789'' ! n]"
  by (simp add: nat_to_string.simps)

lemma NumberToString_small:
  "NumberToString E (Fin 0) = ''0''" "NumberToString E (Fin 2) = ''2''"
  by (simp_all add: NumberToString_def nat_to_string_digit)

text \<open>
  C8. The aggregation does not absorb every missing field. A payload with no
  \<^verbatim>\<open>summary\<close> (the empty object, or the object of the two assessment lists alone) makes
  \<^verbatim>\<open>updateKPICards\<close> throw a TypeError at \<^verbatim>\<open>summary.overall\<close>, before any write. With
  an empty \<^verbatim>\<open>summary\<close> the same function completes with the defaults: scores 0, counts
  0, risk level Critical, critical count 0.
\<close>

theorem updateKPICards_missing_summary:
  "updateKPICards E (JObj []) = ([], Some TypeError)
   \<and> updateKPICards E (JObj [(''ec2'', sample_ec2), (''s3'', sample_s3)]) = ([], Some TypeError)
   \<and> updateKPICards E (JObj [(''summary'', JObj [])]) =
       ([(''overallScore'', ''textContent'', JNum (Fin 0)),
         (''overallScoreFill'', ''style.width'', JStr ''0%''),
         (''overallRiskLevel'', ''textContent'', JStr ''Risk Level: Critical''),
         (''overallRiskLevel'', ''className'', JStr ''risk-level critical''),
         (''ec2Score'', ''textContent'', JNum (Fin 0)),
         (''ec2ScoreFill'', ''style.width'', JStr ''0%''),
         (''ec2Count'', ''textContent'', JStr ''0 instances''),
         (''s3Score'', ''textContent'', JNum (Fin 0)),
         (''s3ScoreFill'', ''style.width'', JStr ''0%''),
         (''s3Count'', ''textContent'', JStr ''0 buckets''),
         (''criticalCount'', ''textContent'', JNum (Fin 0))], None)"
proof -
  have a: "updateKPICards E (JObj []) = ([], Some TypeError)"
    by (simp add: updateKPICards_def get_prop_def nullish_def eval_then_def)
  have b: "updateKPICards E (JObj [(''ec2'', sample_ec2), (''s3'', sample_s3)])
             = ([], Some TypeError)"
    by (simp add: updateKPICards_def get_prop_def nullish_def eval_then_def)
  have crit: "countCriticalIssues (JObj [(''summary'', JObj [])]) = Inr 0"
    by (simp add: countCriticalIssues_def payload_simps)
  have risk: "getRiskLevel E (JNum (Fin 0)) = Inr ''Critical''"
    by (simp add: getRiskLevel_def)
  have low: "toLowerCase E ''Critical'' = ''critical''"
    by (simp add: toLowerCase_def is_ascii_def lower_char_def)
  have c: "updateKPICards E (JObj [(''summary'', JObj [])]) =
       ([(''overallScore'', ''textContent'', JNum (Fin 0)),
         (''overallScoreFill'', ''style.width'', JStr ''0%''),
         (''overallRiskLevel'', ''textContent'', JStr ''Risk Level: Critical''),
         (''overallRiskLevel'', ''className'', JStr ''risk-level critical''),
         (''ec2Score'', ''textContent'', JNum (Fin 0)),
         (''ec2ScoreFill'', ''style.width'', JStr ''0%''),
         (''ec2Count'', ''textContent'', JStr ''0 instances''),
         (''s3Score'', ''textContent'', JNum (Fin 0)),
         (''s3ScoreFill'', ''style.width'', JStr ''0%''),
         (''s3Count'', ''textContent'', JStr ''0 buckets''),
         (''criticalCount'', ''textContent'', JNum (Fin 0))], None)"
    by (simp add: updateKPICards_def get_prop_def opt_chain_def por_def nullish_def crit risk low
          setScoreCard_def NumberToString_small Let_def eval_then_def then_run_def assign_def
          template_suffix_def Math_round_def)
  from a b c show ?thesis by simp
qed

text \<open>
  A score that does not convert to a number makes the function throw where it is first
  used, after the writes made before it.
\<close>

lemma updateKPICards_unprintable_score:
  "updateKPICards E
     (JObj [(''summary'', JObj [(''ec2'', JObj [(''average_score'', JObj [(''toString'', JNull)])])])])
   = ([(''overallScore'', ''textContent'', JNum (Fin 0)),
       (''overallScoreFill'', ''style.width'', JStr ''0%''),
       (''overallRiskLevel'', ''textContent'', JStr ''Risk Level: Critical''),
       (''overallRiskLevel'', ''className'', JStr ''risk-level critical'')],
      Some TypeError)"
proof -
  have risk: "getRiskLevel E (JNum (Fin 0)) = Inr ''Critical''"
    by (simp add: getRiskLevel_def)
  have low: "toLowerCase E ''Critical'' = ''critical''"
    by (simp add: toLowerCase_def is_ascii_def lower_char_def)
  show ?thesis
    by (simp add: updateKPICards_def get_prop_def opt_chain_def por_def nullish_def risk low
          setScoreCard_def NumberToString_small Let_def eval_then_def then_run_def assign_def
          template_suffix_def Math_round_def)
qed

section \<open>Values that convert without a throw\<close>

lemma sequenceE_map_Inr: "sequenceE (map (\<lambda>x. Inr (f x)) xs) = Inr (map f xs)"
  by (induction xs) simp_all

lemma sequenceE_all_Inr:
  assumes "\<And>r. r \<in> set rs \<Longrightarrow> \<exists>x. r = Inr x"
  shows "\<exists>xs. sequenceE rs = Inr xs"
  using assms
proof (induction rs)
  case Nil
  then show ?case by simp
next
  case (Cons r rs)
  from Cons.prems obtain x where "r = Inr x" by auto
  moreover from Cons obtain xs where "sequenceE rs = Inr xs" by auto
  ultimately show ?case by simp
qed

lemma printable_ToString:
  assumes "printable v"
  shows "\<exists>s. ToString E v = Inr s"
  using assms
proof (induction v)
  case (JArr xs)
  let ?f = "\<lambda>x. if x = JUndefined \<or> x = JNull then Inr [] else ToString E x"
  have each: "\<exists>s. ?f x = Inr s" if "x \<in> set xs" for x
    using that JArr by (auto simp: list_all_iff)
  have "\<exists>ss. sequenceE (map ?f xs) = Inr ss"
  proof (rule sequenceE_all_Inr)
    fix r
    assume "r \<in> set (map ?f xs)"
    then obtain x where "x \<in> set xs" and "r = ?f x" by auto
    with each show "\<exists>y. r = Inr y" by metis
  qed
  then obtain ss where "sequenceE (map ?f xs) = Inr ss" by blast
  then show ?case by simp
qed simp_all

lemma printable_ToNumber:
  assumes "printable v"
  shows "\<exists>n. ToNumber E v = Inr n"
proof -
  from printable_ToString [OF assms, of E] obtain s where s: "ToString E v = Inr s" by blast
  show ?thesis
  proof (cases v)
    case (JArr xs)
    with s show ?thesis by (simp del: ToString.simps)
  next
    case (JObj kvs)
    with s show ?thesis by (simp del: ToString.simps)
  qed simp_all
qed

lemma printable_por: "printable a \<Longrightarrow> printable b \<Longrightarrow> printable (por a b)"
  by (simp add: por_def)

lemma printable_tier:
  assumes "printable v"
  shows "\<exists>c g. getScoreColor E v = Inr c \<and> getScoreGradient E v = Inr g"
proof -
  from printable_ToNumber [OF assms, of E] obtain n where "ToNumber E v = Inr n" by blast
  then show ?thesis by (simp add: getScoreColor_def getScoreGradient_def js_ge_def)
qed

section \<open>Recommendation card\<close>

lemma toLowerCase_MEDIUM: "toLowerCase E ''MEDIUM'' = ''medium''"
  by (simp add: toLowerCase_def is_ascii_def lower_char_def)

lemma toLowerCase_HIGH: "toLowerCase E ''HIGH'' = ''high''"
  by (simp add: toLowerCase_def is_ascii_def lower_char_def)

lemma toLowerCase_LOW: "toLowerCase E ''LOW'' = ''low''"
  by (simp add: toLowerCase_def is_ascii_def lower_char_def)

text \<open>
  C7 (as amended). For a recommendation whose \<^verbatim>\<open>priority\<close> is a string or is missing,
  and whose title, description, issue and resource type convert to a string where they
  are present, the card shows the priority in the badge as it is given, in the case it is
  given in (\<^verbatim>\<open>MEDIUM\<close> when it is missing), and in lower case in the two styling
  classes (\<^verbatim>\<open>high\<close>, \<^verbatim>\<open>medium\<close>, \<^verbatim>\<open>low\<close> for the three priorities written in
  capitals); a title, description or issue that is a non-empty string is shown as it is,
  and a missing one is replaced by its placeholder text.
\<close>

theorem recommendation_card_fields:
  assumes "\<not> nullish r" and "string_or_falsy (own_prop r ''priority'')"
      and "printable_fields r [''title'', ''description'', ''issue'', ''resource_type'']"
  shows "\<exists>card. createRecommendationCard E r = Inr card
           \<and> badge_text card = priority_shown (own_prop r ''priority'')
           \<and> card_class card = toLowerCase E (priority_shown (own_prop r ''priority''))
           \<and> badge_class card = toLowerCase E (priority_shown (own_prop r ''priority''))
           \<and> (\<not> truthy (own_prop r ''priority'') \<longrightarrow>
                 badge_text card = ''MEDIUM'' \<and> card_class card = ''medium''
                 \<and> badge_class card = ''medium'')
           \<and> (own_prop r ''priority'' = JStr ''HIGH'' \<longrightarrow>
                 badge_text card = ''HIGH'' \<and> card_class card = ''high''
                 \<and> badge_class card = ''high'')
           \<and> (own_prop r ''priority'' = JStr ''MEDIUM'' \<longrightarrow>
                 badge_text card = ''MEDIUM'' \<and> card_class card = ''medium''
                 \<and> badge_class card = ''medium'')
           \<and> (own_prop r ''priority'' = JStr ''LOW'' \<longrightarrow>
                 badge_text card = ''LOW'' \<and> card_class card = ''low''
                 \<and> badge_class card = ''low'')
           \<and> (\<not> truthy (own_prop r ''title'') \<longrightarrow> title_text card = ''Security Recommendation'')
           \<and> (\<not> truthy (own_prop r ''description'') \<longrightarrow>
                 description_text card = ''Review security configuration'')
           \<and> (\<not> truthy (own_prop r ''issue'') \<longrightarrow> issue_text card = ''General security concern'')
           \<and> (\<forall>t. t \<noteq> [] \<and> own_prop r ''title'' = JStr t \<longrightarrow> title_text card = t)
           \<and> (\<forall>t. t \<noteq> [] \<and> own_prop r ''description'' = JStr t \<longrightarrow> description_text card = t)
           \<and> (\<forall>t. t \<noteq> [] \<and> own_prop r ''issue'' = JStr t \<longrightarrow> issue_text card = t)"
proof -
  let ?p = "own_prop r ''priority''"
  let ?title = "por (own_prop r ''title'') (JStr ''Security Recommendation'')"
  let ?desc = "por (own_prop r ''description'') (JStr ''Review security configuration'')"
  let ?issue = "por (own_prop r ''issue'') (JStr ''General security concern'')"
  let ?rt = "own_prop r ''resource_type''"
  from assms(3) have pr: "printable (own_prop r ''title'')" "printable (own_prop r ''description'')"
    "printable (own_prop r ''issue'')" "printable ?rt"
    by (simp_all add: printable_fields_def)
  have prio: "por ?p (JStr ''MEDIUM'') = JStr (priority_shown ?p)"
    using assms(2) by (cases ?p) (auto simp: por_def)
  obtain t where t: "ToString E ?title = Inr t"
    using printable_ToString [OF printable_por [OF pr(1)], of "JStr ''Security Recommendation''" E]
    by auto
  obtain d where d: "ToString E ?desc = Inr d"
    using printable_ToString [OF printable_por [OF pr(2)], of "JStr ''Review security configuration''" E]
    by auto
  obtain i where i: "ToString E ?issue = Inr i"
    using printable_ToString [OF printable_por [OF pr(3)], of "JStr ''General security concern''" E]
    by auto
  obtain ty where ty: "(if truthy ?rt then bindE (ToString E ?rt) (\<lambda>s. Inr (Some s)) else Inr None)
                         = Inr ty"
    using printable_ToString [OF pr(4), of E] by (cases "truthy ?rt") auto
  have card: "createRecommendationCard E r =
          Inr \<lparr>card_class = toLowerCase E (priority_shown ?p),
               badge_class = toLowerCase E (priority_shown ?p),
               badge_text = priority_shown ?p, title_text = t, description_text = d,
               issue_text = i, type_text = ty\<rparr>"
    using assms(1) t d i ty
    by (simp add: createRecommendationCard_def get_prop_def prio Let_def)
  have missing: "\<not> truthy ?p \<Longrightarrow> priority_shown ?p = ''MEDIUM''"
    by (cases ?p) auto
  have t1: "\<not> truthy (own_prop r ''title'') \<Longrightarrow> t = ''Security Recommendation''"
    using t by (simp add: por_def)
  have d1: "\<not> truthy (own_prop r ''description'') \<Longrightarrow> d = ''Review security configuration''"
    using d by (simp add: por_def)
  have i1: "\<not> truthy (own_prop r ''issue'') \<Longrightarrow> i = ''General security concern''"
    using i by (simp add: por_def)
  have t2: "x \<noteq> [] \<and> own_prop r ''title'' = JStr x \<Longrightarrow> t = x" for x
    using t by (auto simp: por_def)
  have d2: "x \<noteq> [] \<and> own_prop r ''description'' = JStr x \<Longrightarrow> d = x" for x
    using d by (auto simp: por_def)
  have i2: "x \<noteq> [] \<and> own_prop r ''issue'' = JStr x \<Longrightarrow> i = x" for x
    using i by (auto simp: por_def)
  show ?thesis
    unfolding card
    using missing t1 d1 i1 t2 d2 i2
    by (auto simp: toLowerCase_MEDIUM toLowerCase_HIGH toLowerCase_LOW)
qed

theorem recommendation_card_fields_witness:
  "createRecommendationCard demo_engine
     (JObj [(''priority'', JStr ''High''), (''issue'', JStr ''Open port'')])
     = Inr \<lparr>card_class = ''high'', badge_class = ''high'', badge_text = ''High'',
            title_text = ''Security Recommendation'',
            description_text = ''Review security configuration'',
            issue_text = ''Open port'', type_text = None\<rparr>"
proof -
  let ?r = "JObj [(''priority'', JStr ''High''), (''issue'', JStr ''Open port'')]"
  have a: "\<not> nullish ?r" by (simp add: nullish_def)
  have b: "string_or_falsy (own_prop ?r ''priority'')" by simp
  have c: "printable_fields ?r [''title'', ''description'', ''issue'', ''resource_type'']"
    by (simp add: printable_fields_def)
  from recommendation_card_fields [OF a b c, of demo_engine]
  obtain card where "createRecommendationCard demo_engine ?r = Inr card" by blast
  then show ?thesis
    by (simp add: createRecommendationCard_def get_prop_def por_def nullish_def toLowerCase_def
          is_ascii_def lower_char_def)
qed

text \<open>
  The claim as it was stated fails: a priority given in lower case reaches the badge in
  lower case.
\<close>

theorem recommendation_badge_not_uppercased:
  "createRecommendationCard demo_engine (JObj [(''priority'', JStr ''high'')])
     = Inr \<lparr>card_class = ''high'', badge_class = ''high'', badge_text = ''high'',
            title_text = ''Security Recommendation'',
            description_text = ''Review security configuration'',
            issue_text = ''General security concern'', type_text = None\<rparr>
   \<and> ''high'' \<noteq> ''HIGH''"
  by (simp add: createRecommendationCard_def get_prop_def por_def nullish_def toLowerCase_def
        is_ascii_def lower_char_def)

text \<open>
  The hypotheses are needed: a priority that is not a string has no \<^verbatim>\<open>toLowerCase\<close>,
  and a title that is an object with a \<^verbatim>\<open>toString\<close> property of its own does not
  convert to a string. Both make the function throw.
\<close>

lemma recommendation_card_priority_number:
  "createRecommendationCard E (JObj [(''priority'', JNum (Fin 1))]) = Inl TypeError"
  by (simp add: createRecommendationCard_def get_prop_def por_def nullish_def)

lemma recommendation_card_unprintable_title:
  "createRecommendationCard E
     (JObj [(''priority'', JStr ''HIGH''), (''title'', JObj [(''toString'', JStr ''x'')])])
     = Inl TypeError"
  by (simp add: createRecommendationCard_def get_prop_def por_def nullish_def)

section \<open>Assessment card\<close>

lemma NumberToString_nat:
  assumes "n < 2 ^ 53"
  shows "NumberToString E (Fin (real n)) = nat_to_string n"
proof -
  have "real n < 2 ^ 53"
    using assms by (metis of_nat_less_iff of_nat_numeral of_nat_power)
  then show ?thesis by (simp add: NumberToString_def)
qed

lemma more_marker_decimal:
  assumes "3 < len" and "len < 2 ^ 32"
  shows "more_marker E len = ''<li>... and '' @ nat_to_string (len - 3) @ '' more issues</li>''"
proof -
  from assms(1) have eq: "real len - 3 = real (len - 3)" by simp
  from assms(2) have "len - 3 < (2::nat) ^ 53" by simp
  then have "NumberToString E (Fin (real (len - 3))) = nat_to_string (len - 3)"
    by (rule NumberToString_nat)
  with assms(1) eq show ?thesis by (simp add: more_marker_def)
qed

lemma render_issues_strings:
  "render_issues E (JArr (map JStr ss)) =
     Inr (if ss = [] then NoIssues
          else IssuesList (concat (map (\<lambda>s. ''<li>'' @ s @ ''</li>'') (take 3 ss)))
                 (more_marker E (length ss)))"
proof -
  have "map (issue_item E) (take 3 (map JStr ss))
          = map (\<lambda>s. Inr (''<li>'' @ s @ ''</li>'')) (take 3 ss)"
    by (simp add: take_map issue_item_def)
  then show ?thesis
    by (simp add: render_issues_def js_gt_def sequenceE_map_Inr)
qed

lemma take3:
  assumes "3 \<le> length xs"
  shows "take 3 xs = [xs ! 0, xs ! 1, xs ! 2]"
proof -
  from assms obtain a b c ys where "xs = a # b # c # ys"
    by (metis Suc_le_length_iff numeral_3_eq_3)
  then show ?thesis by simp
qed

text \<open>
  C6 (as amended). For an assessment whose \<^verbatim>\<open>issues\<close> is an array of strings (of fewer
  than \<^verbatim>\<open>2^32\<close> elements, as every array is) and whose name, state, score and risk level
  convert to a string where they are present: with more than 3 issues the card shows the
  list items \<^verbatim>\<open><li>issue</li>\<close> of the first 3 issues, in order, and after them the
  marker \<^verbatim>\<open><li>... and N more issues</li>\<close>, N being the length minus 3 in decimal;
  with 5 issues the marker reads \<^verbatim>\<open>... and 2 more issues\<close>; with 1 to 3 issues the card
  shows the list items of them all and no marker; with none it shows the paragraph that no
  issue was found.
\<close>

theorem assessment_card_issues:
  assumes "\<not> nullish a"
      and "printable_fields a
             [''instance_name'', ''bucket_name'', ''state'', ''security_score'', ''risk_level'']"
      and "own_prop a ''issues'' = JArr (map JStr ss)" and "length ss < 2 ^ 32"
  shows "\<exists>card. createAssessmentCard E a ty = Inr card
           \<and> (ss = [] \<longrightarrow> issues_view card = NoIssues)
           \<and> (ss \<noteq> [] \<and> length ss \<le> 3 \<longrightarrow>
                 issues_view card
                   = IssuesList (concat (map (\<lambda>s. ''<li>'' @ s @ ''</li>'') ss)) [])
           \<and> (3 < length ss \<longrightarrow>
                 issues_view card =
                   IssuesList (''<li>'' @ ss ! 0 @ ''</li>'' @ ''<li>'' @ ss ! 1 @ ''</li>''
                                 @ ''<li>'' @ ss ! 2 @ ''</li>'')
                     (''<li>... and '' @ nat_to_string (length ss - 3) @ '' more issues</li>''))
           \<and> (length ss = 5 \<longrightarrow>
                 issues_view card =
                   IssuesList (''<li>'' @ ss ! 0 @ ''</li>'' @ ''<li>'' @ ss ! 1 @ ''</li>''
                                 @ ''<li>'' @ ss ! 2 @ ''</li>'')
                     ''<li>... and 2 more issues</li>'')"
proof -
  let ?score = "por (own_prop a ''security_score'') (JNum (Fin 0))"
  let ?risk = "por (own_prop a ''risk_level'') (JStr ''Unknown'')"
  let ?name = "por (own_prop a ''instance_name'')
                 (por (own_prop a ''bucket_name'') (JStr ''Unknown''))"
  let ?state = "por (own_prop a ''state'') (JStr ''unknown'')"
  from assms(2) have pr: "printable (own_prop a ''instance_name'')"
    "printable (own_prop a ''bucket_name'')" "printable (own_prop a ''state'')"
    "printable (own_prop a ''security_score'')" "printable (own_prop a ''risk_level'')"
    by (simp_all add: printable_fields_def)
  have p_name: "printable ?name" and p_state: "printable ?state"
    and p_score: "printable ?score" and p_risk: "printable ?risk"
    using pr by (simp_all add: printable_por)
  obtain name_s where name_s: "ToString E ?name = Inr name_s"
    using printable_ToString [OF p_name] by blast
  obtain state_s where state_s: "ToString E ?state = Inr state_s"
    using printable_ToString [OF p_state] by blast
  obtain color gradient where tier: "getScoreColor E ?score = Inr color"
    "getScoreGradient E ?score = Inr gradient"
    using printable_tier [OF p_score] by blast
  obtain n where n: "ToNumber E ?score = Inr n"
    using printable_ToNumber [OF p_score] by blast
  obtain width where width: "ToString E ?score = Inr width"
    using printable_ToString [OF p_score] by blast
  obtain rtext where rtext: "ToString E ?risk = Inr rtext"
    using printable_ToString [OF p_risk] by blast
  have issues: "por (own_prop a ''issues'') (JArr []) = JArr (map JStr ss)"
    by (simp add: assms(3) por_def)
  define iv where "iv = (if ss = [] then NoIssues
          else IssuesList (concat (map (\<lambda>s. ''<li>'' @ s @ ''</li>'') (take 3 ss)))
                 (more_marker E (length ss)))"
  have card: "\<exists>card. createAssessmentCard E a ty = Inr card \<and> issues_view card = iv"
    using assms(1) name_s state_s tier n width rtext
    by (simp add: createAssessmentCard_def get_prop_def issues render_issues_strings Let_def
          iv_def Math_round_def getRiskColor_def)
  have none: "iv = NoIssues" if "ss = []"
    using that by (simp add: iv_def)
  have few: "iv = IssuesList (concat (map (\<lambda>s. ''<li>'' @ s @ ''</li>'') ss)) []"
    if "ss \<noteq> [] \<and> length ss \<le> 3"
    using that by (simp add: iv_def more_marker_def)
  have many: "iv = IssuesList (''<li>'' @ ss ! 0 @ ''</li>'' @ ''<li>'' @ ss ! 1 @ ''</li>''
                                 @ ''<li>'' @ ss ! 2 @ ''</li>'')
                     (''<li>... and '' @ nat_to_string (length ss - 3) @ '' more issues</li>'')"
    if "3 < length ss"
  proof -
    from that have "take 3 ss = [ss ! 0, ss ! 1, ss ! 2]" by (simp add: take3)
    moreover from that have "ss \<noteq> []" by auto
    ultimately show ?thesis
      using that assms(4) by (simp add: iv_def more_marker_decimal)
  qed
  have five: "iv = IssuesList (''<li>'' @ ss ! 0 @ ''</li>'' @ ''<li>'' @ ss ! 1 @ ''</li>''
                                 @ ''<li>'' @ ss ! 2 @ ''</li>'')
                     ''<li>... and 2 more issues</li>''"
    if "length ss = 5"
    using many that by (simp add: nat_to_string_digit)
  from card none few many five show ?thesis by blast
qed

lemmas card_eval =
  createAssessmentCard_def get_prop_def nullish_def por_def Let_def getScoreColor_def
  getScoreGradient_def getRiskColor_def object_prototype_keys_def NumberToString_def
  nat_to_string_digit render_issues_def js_gt_def issue_item_def more_marker_def Math_round_def

theorem assessment_card_issues_witness:
  "createAssessmentCard demo_engine
     (JObj [(''bucket_name'', JStr ''logs''),
            (''issues'', JArr [JStr ''p'', JStr ''q'', JStr ''r'', JStr ''s'', JStr ''t'', JStr ''u''])])
     ''S3''
   = Inr \<lparr>name_text = ''logs'', resource_label = ''S3 Bucket'', state_badge = None,
          score_color = ''#D32F2F'', score_text = Fin 0, fill_width = ''0'',
          fill_gradient = ''linear-gradient(90deg, #D32F2F, #F44336)'',
          risk_color = ''#B0B8C1'', risk_text = ''Unknown'',
          issues_view = IssuesList ''<li>p</li><li>q</li><li>r</li>''
                          ''<li>... and 3 more issues</li>''\<rparr>"
proof -
  let ?ss = "[''p'', ''q'', ''r'', ''s'', ''t'', ''u'']"
  let ?a = "JObj [(''bucket_name'', JStr ''logs''),
                  (''issues'', JArr [JStr ''p'', JStr ''q'', JStr ''r'', JStr ''s'', JStr ''t'',
                                     JStr ''u''])]"
  have a: "\<not> nullish ?a" by (simp add: nullish_def)
  have b: "printable_fields ?a
             [''instance_name'', ''bucket_name'', ''state'', ''security_score'', ''risk_level'']"
    by (simp add: printable_fields_def)
  have c: "own_prop ?a ''issues'' = JArr (map JStr ?ss)" by simp
  have d: "length ?ss < 2 ^ 32" by simp
  from assessment_card_issues [OF a b c d, of demo_engine "''S3''"]
  obtain card where card: "createAssessmentCard demo_engine ?a ''S3'' = Inr card"
    and iv: "issues_view card =
               IssuesList (''<li>'' @ ?ss ! 0 @ ''</li>'' @ ''<li>'' @ ?ss ! 1 @ ''</li>''
                             @ ''<li>'' @ ?ss ! 2 @ ''</li>'')
                 (''<li>... and '' @ nat_to_string (length ?ss - 3) @ '' more issues</li>'')"
    by auto
  have rest: "createAssessmentCard demo_engine ?a ''S3''
     = Inr \<lparr>name_text = ''logs'', resource_label = ''S3 Bucket'', state_badge = None,
          score_color = ''#D32F2F'', score_text = Fin 0, fill_width = ''0'',
          fill_gradient = ''linear-gradient(90deg, #D32F2F, #F44336)'',
          risk_color = ''#B0B8C1'', risk_text = ''Unknown'',
          issues_view = issues_view card\<rparr>"
    using card by (auto simp: card_eval js_ge_def bindE_def split: sum.splits)
  from iv have "issues_view card
                  = IssuesList ''<li>p</li><li>q</li><li>r</li>'' ''<li>... and 3 more issues</li>''"
    by (simp add: nat_to_string_digit)
  with rest show ?thesis by simp
qed

text \<open>
  The claim as it was stated names a \<^verbatim>\<open>+2 more\<close> indicator: with 5 issues the issues
  block of the card is the three list items and the marker \<^verbatim>\<open>... and 2 more issues\<close>,
  and the text \<^verbatim>\<open>+2 more\<close> occurs nowhere in it.
\<close>

theorem assessment_card_marker_text:
  "createAssessmentCard demo_engine
     (JObj [(''instance_name'', JStr ''web''),
            (''issues'', JArr [JStr ''a'', JStr ''b'', JStr ''c'', JStr ''d'', JStr ''e''])])
     ''EC2''
   = Inr \<lparr>name_text = ''web'', resource_label = ''EC2 Instance'', state_badge = Some ''unknown'',
          score_color = ''#D32F2F'', score_text = Fin 0, fill_width = ''0'',
          fill_gradient = ''linear-gradient(90deg, #D32F2F, #F44336)'',
          risk_color = ''#B0B8C1'', risk_text = ''Unknown'',
          issues_view = IssuesList ''<li>a</li><li>b</li><li>c</li>''
                          ''<li>... and 2 more issues</li>''\<rparr>
   \<and> \<not> includes_str ''<li>a</li><li>b</li><li>c</li><li>... and 2 more issues</li>'' ''+2 more''"
  by (simp add: card_eval)

text \<open>
  The hypotheses are needed: a name or an issue that is an object with a
  \<^verbatim>\<open>toString\<close> property of its own does not convert to a string, and an
  \<^verbatim>\<open>issues\<close> that is a string has no \<^verbatim>\<open>map\<close> after \<^verbatim>\<open>slice\<close>. Each makes the
  function throw.
\<close>

lemma assessment_card_unprintable_name:
  "createAssessmentCard E (JObj [(''instance_name'', JObj [(''toString'', JNull)])]) ty
     = Inl TypeError"
  by (simp add: createAssessmentCard_def get_prop_def nullish_def por_def)

lemma assessment_card_unprintable_issue:
  "createAssessmentCard E
     (JObj [(''instance_name'', JStr ''web''), (''issues'', JArr [JObj [(''toString'', JNull)]])])
     ''S3''
     = Inl TypeError"
  by (simp add: card_eval)

lemma assessment_card_issues_string:
  "createAssessmentCard E
     (JObj [(''instance_name'', JStr ''web''), (''issues'', JStr ''open port'')]) ''S3''
     = Inl TypeError"
  by (simp add: card_eval)

section \<open>Fallback of the API client\<close>

text \<open>\<^verbatim>\<open>includes\<close> is the test for a contiguous substring.\<close>

lemma includes_str_iff: "includes_str hay needle = (\<exists>ps ss. hay = ps @ needle @ ss)"
proof (induction hay)
  case Nil
  then show ?case by auto
next
  case (Cons c cs)
  show ?case
  proof
    assume "includes_str (c # cs) needle"
    then consider "prefix needle (c # cs)" | "includes_str cs needle" by auto
    then show "\<exists>ps ss. c # cs = ps @ needle @ ss"
    proof cases
      case 1
      then obtain ss where "c # cs = needle @ ss" by (auto simp: prefix_def)
      then have "c # cs = [] @ needle @ ss" by simp
      then show ?thesis by blast
    next
      case 2
      with Cons.IH obtain ps ss where "cs = ps @ needle @ ss" by blast
      then have "c # cs = (c # ps) @ needle @ ss" by simp
      then show ?thesis by blast
    qed
  next
    assume "\<exists>ps ss. c # cs = ps @ needle @ ss"
    then obtain ps ss where eq: "c # cs = ps @ needle @ ss" by blast
    show "includes_str (c # cs) needle"
    proof (cases ps)
      case Nil
      with eq have "prefix needle (c # cs)" by (simp add: prefix_def)
      then show ?thesis by simp
    next
      case (Cons p ps')
      with eq have "cs = ps' @ needle @ ss" by simp
      with Cons.IH have "includes_str cs needle" by blast
      then show ?thesis by simp
    qed
  qed
qed

text \<open>
  The two failures of the transport: the fetch rejects (a network error), or it answers
  with a status that is not a success.
\<close>

lemma request_try_rejected:
  assumes "fetch (b @ ep)
             \<lparr>opt_method = m, opt_content_type = ''application/json'',
              opt_body = (if truthy p then Some p else None)\<rparr> = Rejected e"
  shows "request_try fetch b ep m p = Inl e"
  using assms by (simp add: request_try_def)

lemma request_try_not_ok:
  assumes "fetch (b @ ep)
             \<lparr>opt_method = m, opt_content_type = ''application/json'',
              opt_body = (if truthy p then Some p else None)\<rparr> = Resolved r"
      and "\<not> ok r"
  shows "request_try fetch b ep m p = Inl (ApiError (status r) (statusText r))"
  using assms by (simp add: request_try_def)

lemma request_failure:
  assumes "request_try fetch b ep m p = Inl e"
  shows "request fetch b ep m p =
           (if ep \<noteq> [] \<and> prefix ''/api'' ep
            then ([ConsoleError e, ConsoleWarn ep], Inr (mockApiResponse ep m))
            else ([ConsoleError e], Inl e))"
  using assms by (simp add: request_def)

lemma mock_dashboard: "mockApiResponse ''/api/dashboard'' m = sample"
  by (simp add: mockApiResponse_def)

lemma mock_assessments:
  "mockApiResponse ''/api/assessments'' m = JObj [(''ec2'', sample_ec2), (''s3'', sample_s3)]"
  by (simp add: mockApiResponse_def)

lemma mock_recommendations: "mockApiResponse ''/api/recommendations'' m = sample_recommendations"
  by (simp add: mockApiResponse_def)

lemma mock_summary: "mockApiResponse ''/api/security-score-summary'' m = sample_summary"
  by (simp add: mockApiResponse_def)

lemma mock_assessment: "mockApiResponse ''/api/assessment'' m = JObj []"
  by (simp add: mockApiResponse_def)

lemma mock_recommendation: "mockApiResponse ''/api/recommendation'' m = JObj []"
  by (simp add: mockApiResponse_def)

lemma mock_of_client_endpoint:
  assumes "ep \<in> set client_endpoints"
  shows "prefix ''/api'' ep \<and> ep \<noteq> []
         \<and> mockApiResponse ep m =
             (if ep = ''/api/dashboard'' then sample
              else if ep = ''/api/assessments'' then JObj [(''ec2'', sample_ec2), (''s3'', sample_s3)]
              else if ep = ''/api/recommendations'' then sample_recommendations
              else if ep = ''/api/security-score-summary'' then sample_summary
              else JObj [])"
proof -
  from assms consider
      "ep = ''/api/dashboard''" | "ep = ''/api/assessments''" | "ep = ''/api/recommendations''"
    | "ep = ''/api/security-score-summary''" | "ep = ''/api/assessment''"
    | "ep = ''/api/recommendation''"
    unfolding client_endpoints_def by fastforce
  then show ?thesis
  proof cases
    case 1
    then show ?thesis by (simp add: mock_dashboard)
  next
    case 2
    then show ?thesis by (simp add: mock_assessments)
  next
    case 3
    then show ?thesis by (simp add: mock_recommendations)
  next
    case 4
    then show ?thesis by (simp add: mock_summary)
  next
    case 5
    then show ?thesis by (simp add: mock_assessment)
  next
    case 6
    then show ?thesis by (simp add: mock_recommendation)
  qed
qed

text \<open>
  C3. For each of the six endpoints of the client, when the attempt fails with an error
  (the fetch rejects, the status is not a success, or the body does not parse),
  \<^verbatim>\<open>request\<close> logs the error, logs the warning that names the endpoint, and returns the
  mock payload of that endpoint instead of the error. The payload depends on the endpoint
  alone: the whole sample for the dashboard, its two assessment lists, its
  recommendations, its summary, and the empty object for the two endpoints that save.
  So \<^verbatim>\<open>request\<close> on such an endpoint always returns a value and never the error.
\<close>

theorem request_fallback_recognized:
  assumes "ep \<in> set client_endpoints"
  shows "(request_try fetch b ep m p = Inl e \<longrightarrow>
            request fetch b ep m p
              = ([ConsoleError e, ConsoleWarn ep], Inr (mockApiResponse ep m)))
         \<and> mockApiResponse ep m =
             (if ep = ''/api/dashboard'' then sample
              else if ep = ''/api/assessments'' then JObj [(''ec2'', sample_ec2), (''s3'', sample_s3)]
              else if ep = ''/api/recommendations'' then sample_recommendations
              else if ep = ''/api/security-score-summary'' then sample_summary
              else JObj [])
         \<and> (\<exists>v. snd (request fetch b ep m p) = Inr v)"
proof -
  note mock = mock_of_client_endpoint [OF assms, of m]
  have fallback: "request fetch b ep m p
                    = ([ConsoleError e', ConsoleWarn ep], Inr (mockApiResponse ep m))"
    if "request_try fetch b ep m p = Inl e'" for e'
    using request_failure [OF that] mock by simp
  have "\<exists>v. snd (request fetch b ep m p) = Inr v"
  proof (cases "request_try fetch b ep m p")
    case (Inl e')
    with fallback show ?thesis by simp
  next
    case (Inr v)
    then show ?thesis by (simp add: request_def)
  qed
  with fallback mock show ?thesis by blast
qed

theorem request_fallback_recognized_witness:
  "getDashboardData offline_fetch ''http://localhost:3000''
     = ([ConsoleError NetworkError, ConsoleWarn ''/api/dashboard''], Inr sample)
   \<and> saveAssessment unavailable_fetch [] (JObj [(''instance_name'', JStr ''web'')])
     = ([ConsoleError (ApiError 503 ''Service Unavailable''), ConsoleWarn ''/api/assessment''],
        Inr (JObj []))"
proof -
  have a: "''/api/dashboard'' \<in> set client_endpoints" by (simp add: client_endpoints_def)
  have b: "request_try offline_fetch ''http://localhost:3000'' ''/api/dashboard'' ''GET'' JNull
             = Inl NetworkError"
    by (simp add: request_try_def offline_fetch_def)
  have c: "''/api/assessment'' \<in> set client_endpoints" by (simp add: client_endpoints_def)
  have d: "request_try unavailable_fetch [] ''/api/assessment'' ''POST''
             (JObj [(''instance_name'', JStr ''web'')])
           = Inl (ApiError 503 ''Service Unavailable'')"
    by (simp add: request_try_def unavailable_fetch_def)
  from request_fallback_recognized [OF a, of offline_fetch "''http://localhost:3000''" "''GET''"
         JNull NetworkError] b
  have 1: "request offline_fetch ''http://localhost:3000'' ''/api/dashboard'' ''GET'' JNull
             = ([ConsoleError NetworkError, ConsoleWarn ''/api/dashboard''], Inr sample)"
    by simp
  from request_fallback_recognized [OF c, of unavailable_fetch "[]" "''POST''"
         "JObj [(''instance_name'', JStr ''web'')]" "ApiError 503 ''Service Unavailable''"] d
  have 2: "request unavailable_fetch [] ''/api/assessment'' ''POST''
             (JObj [(''instance_name'', JStr ''web'')])
           = ([ConsoleError (ApiError 503 ''Service Unavailable''), ConsoleWarn ''/api/assessment''],
              Inr (JObj []))"
    by simp
  from 1 2 show ?thesis by (simp add: getDashboardData_def saveAssessment_def)
qed

text \<open>
  C10. When the attempt fails: an endpoint that does not start with \<^verbatim>\<open>/api\<close>, the empty
  endpoint among them, gets the error back, logged once and with no warning; an endpoint
  that starts with \<^verbatim>\<open>/api\<close> gets the mock payload, and that payload is the empty object
  when the endpoint contains none of the four paths that are read.
\<close>

theorem request_fallback_scope:
  assumes "request_try fetch b ep m p = Inl e"
  shows "(\<not> prefix ''/api'' ep \<longrightarrow> request fetch b ep m p = ([ConsoleError e], Inl e))
         \<and> (ep = [] \<longrightarrow> request fetch b ep m p = ([ConsoleError e], Inl e))
         \<and> (prefix ''/api'' ep \<longrightarrow>
               request fetch b ep m p = ([ConsoleError e, ConsoleWarn ep], Inr (mockApiResponse ep m)))
         \<and> (prefix ''/api'' ep
               \<and> \<not> includes_str ep ''/api/dashboard'' \<and> \<not> includes_str ep ''/api/assessments''
               \<and> \<not> includes_str ep ''/api/recommendations''
               \<and> \<not> includes_str ep ''/api/security-score-summary'' \<longrightarrow>
               mockApiResponse ep m = JObj []
               \<and> request fetch b ep m p = ([ConsoleError e, ConsoleWarn ep], Inr (JObj [])))"
proof -
  note r = request_failure [OF assms]
  have nonempty: "ep \<noteq> []" if "prefix ''/api'' ep"
    using that by auto
  have 1: "request fetch b ep m p = ([ConsoleError e], Inl e)" if "\<not> prefix ''/api'' ep"
    using r that by simp
  have 2: "request fetch b ep m p = ([ConsoleError e], Inl e)" if "ep = []"
    using r that by simp
  have 3: "request fetch b ep m p = ([ConsoleError e, ConsoleWarn ep], Inr (mockApiResponse ep m))"
    if "prefix ''/api'' ep"
    using r that nonempty by simp
  have 4: "mockApiResponse ep m = JObj []"
    if "\<not> includes_str ep ''/api/dashboard''" "\<not> includes_str ep ''/api/assessments''"
       "\<not> includes_str ep ''/api/recommendations''"
       "\<not> includes_str ep ''/api/security-score-summary''"
    using that by (simp add: mockApiResponse_def)
  from 1 2 3 4 show ?thesis by metis
qed

theorem request_fallback_scope_witness:
  "request offline_fetch [] ''/health'' ''GET'' JNull = ([ConsoleError NetworkError], Inl NetworkError)
   \<and> request offline_fetch [] [] ''GET'' JNull = ([ConsoleError NetworkError], Inl NetworkError)
   \<and> request offline_fetch [] ''/api/users'' ''GET'' JNull
       = ([ConsoleError NetworkError, ConsoleWarn ''/api/users''], Inr (JObj []))"
proof -
  have a: "request_try offline_fetch [] ep ''GET'' JNull = Inl NetworkError" for ep
    by (simp add: request_try_def offline_fetch_def)
  have h: "\<not> prefix ''/api'' ''/health''" by simp
  have u: "prefix ''/api'' ''/api/users''
               \<and> \<not> includes_str ''/api/users'' ''/api/dashboard''
               \<and> \<not> includes_str ''/api/users'' ''/api/assessments''
               \<and> \<not> includes_str ''/api/users'' ''/api/recommendations''
               \<and> \<not> includes_str ''/api/users'' ''/api/security-score-summary''"
    by simp
  from request_fallback_scope [OF a [of "''/health''"]] h
  have 1: "request offline_fetch [] ''/health'' ''GET'' JNull
             = ([ConsoleError NetworkError], Inl NetworkError)"
    by blast
  from request_fallback_scope [OF a [of "[]"]]
  have 2: "request offline_fetch [] [] ''GET'' JNull = ([ConsoleError NetworkError], Inl NetworkError)"
    by blast
  from request_fallback_scope [OF a [of "''/api/users''"]] u
  have 3: "request offline_fetch [] ''/api/users'' ''GET'' JNull
       = ([ConsoleError NetworkError, ConsoleWarn ''/api/users''], Inr (JObj []))"
    by blast
  from 1 2 3 show ?thesis by simp
qed

end
